theory Spec2Isabelle
  imports Main "HOL-Library.Word"
begin

unbundle bit_operations_syntax

section \<open>Shared types\<close>

text \<open>
  Go \<open>error\<close> values. \<open>EOF\<close> is \<open>io.EOF\<close>, \<open>Errno\<close> a kernel error number
  (\<open>syscall.Errno\<close>, also when wrapped in a path error), \<open>ErrorText\<close> an error made by
  \<open>errors.New\<close> or \<open>fmt.Errorf\<close>, kept by its message.
\<close>

datatype error = EOF | Errno nat | ErrorText string

text \<open>
  \<open>syscall.Stat_t\<close>: the numeric fields of the kernel's stat record, by name, in the
  order of the declaration.
\<close>

type_synonym Stat_t = "(string \<times> int) list"

text \<open>
  Modelled from the spec: \<open>domain.FileInfo\<close> (the \<open>domain\<close> package is not among the
  sources): \<open>{name, size, mode, mtime, isdir, stat_t}\<close>. The fields are named as
  \<open>processLookupRequest\<close> names them. \<open>FmodTime\<close> is the instant as a number, \<open>Fsys\<close> a
  pointer (\<open>None\<close> is nil).
\<close>

record FileInfo =
  Fname :: string
  Fsize :: int
  Fmode :: "32 word"
  FmodTime :: int
  FisDir :: bool
  Fsys :: "Stat_t option"

text \<open>
  Modelled from the spec: \<open>domain.IOnodeIface\<close> and \<open>domain.HandlerRequest\<close>
  (request id, offset, size, caller PID, caller credentials).
\<close>

record IOnode =
  Name :: string
  Path :: string

record HandlerRequest =
  ID :: nat
  ReqPid :: "32 word"
  ReqUid :: "32 word"
  ReqGid :: "32 word"
  Offset :: int
  ReqData :: string

section \<open>Messages between master and agent\<close>

text \<open>
  The message tags (\<open>domain.NSenterMsgType\<close>), named as the source names them;
  \<open>OtherMsgType\<close> is any other tag value that may arrive on the wire.
\<close>

datatype NSenterMsgType =
    LookupRequest | LookupResponse
  | OpenFileRequest | OpenFileResponse
  | ReadFileRequest | ReadFileResponse
  | WriteFileRequest | WriteFileResponse
  | ReadDirRequest | ReadDirResponse
  | MountSyscallRequest | MountSyscallResponse
  | UmountSyscallRequest | UmountSyscallResponse
  | ChownSyscallRequest | ChownSyscallResponse
  | MountInfoRequest | MountInfoResponse
  | MountInodeRequest | MountInodeResponse
  | SleepRequest | SleepResponse
  | ErrorResponse
  | OtherMsgType string

text \<open>
  Modelled from the spec: the request payloads of the \<open>domain\<close> package, with the fields
  the agent reads. The mount header holds the personality of the process that made the
  mount syscall (uid, gid, root, cwd, capabilities).
\<close>

record LookupPayload =
  Entry :: string

record OpenFilePayload =
  oFile :: string
  oFlags :: string
  oMode :: string

record ReadFilePayload =
  rFile :: string

record WriteFilePayload =
  wFile :: string
  wContent :: string

record ReadDirPayload =
  Dir :: string

record MountHeader =
  hUid :: "32 word"
  hGid :: "32 word"
  hRoot :: string
  hCwd :: string
  hCapabilities :: "32 word list"

record MountSyscallPayload =
  Header :: MountHeader
  Source :: string
  Target :: string
  FsType :: string
  Flags :: "64 word"
  Data :: string

record UmountSyscallPayload =
  uTarget :: string
  uFlags :: "64 word"

record ChownSyscallPayload =
  cTarget :: string
  TargetUid :: int
  TargetGid :: int

record MountInodeReqPayload =
  Mountpoints :: "string list"

record SleepReqPayload =
  Ival :: string

text \<open>
  Modelled from the spec: one parsed line of \<open>/proc/self/mountinfo\<close> (id, parent, device,
  root, mountpoint, options, fs-type, source, super-options).
\<close>

record MountInfo =
  MountID :: int
  ParentID :: int
  MajorMinorVer :: string
  Root :: string
  MountPoint :: string
  Options :: string
  MFsType :: string
  MSource :: string
  VfsOptions :: string

datatype IOerror = IOerror (RcvError: "error option")

datatype MountInfoRespPayload = MountInfoRespPayload (MountInfoData: "MountInfo list")

datatype MountInodeRespPayload = MountInodeRespPayload (MpInodeList: "64 word list")

text \<open>
  The values a message's \<open>Payload interface{}\<close> holds in the source. A pointer to a
  struct and the struct are different values of the interface, so they are different
  constructors.
\<close>

datatype payload =
    PNil
  | PInt int
  | PString string
  | PFileInfo FileInfo
  | PFileInfoSlice "FileInfo list"
  | PIOerror IOerror
  | PIOerrorPtr IOerror
  | PMountInfoResp MountInfoRespPayload
  | PMountInfoRespPtr MountInfoRespPayload
  | PMountInodeResp MountInodeRespPayload
  | PMountInodeRespPtr MountInodeRespPayload

record NSenterMessage =
  Type :: NSenterMsgType
  Payload :: payload

text \<open>
  A request as \<open>processRequest\<close> holds it after the second decoding phase: the tag with
  the payload variable \<open>p\<close> of the tag's type. \<open>UnsupportedReq\<close> is a message of any other
  tag.
\<close>

datatype request =
    LookupReq LookupPayload
  | OpenFileReq OpenFilePayload
  | ReadFileReq ReadFilePayload
  | WriteFileReq WriteFilePayload
  | ReadDirReq ReadDirPayload
  | MountSyscallReq "MountSyscallPayload list"
  | UmountSyscallReq "UmountSyscallPayload list"
  | MountInfoReq
  | MountInodeReq MountInodeReqPayload
  | ChownSyscallReq "ChownSyscallPayload list"
  | SleepReq SleepReqPayload
  | UnsupportedReq NSenterMsgType

section \<open>The agent's environment\<close>

text \<open>
  Every call the agent makes outside its own code, in the order made. The kernel and the
  packages that are not among the sources (\<open>process\<close>, \<open>mount\<close>, \<open>domain.FileInode\<close>)
  answer a call as a function of the calls made before it: the trace is the state of the
  world, and the environment is any such function.
\<close>

datatype syscall =
    SysStat string
  | SysOpenFile string int "32 word"
  | SysClose string
  | SysReadFile string
  | SysWriteFile string string "32 word"
  | SysReadDir string
  | SysAdjustPersonality MountHeader
  | SysResolveProcSelf "32 word" string
  | SysMount string string string "64 word" string
  | SysUnmount string int
  | SysChown string int int
  | SysGetpid
  | SysNewMountInfoParser "32 word"
  | SysExtractMountInfo "32 word"
  | SysFileInode string
  | SysSleep int

type_synonym trace = "syscall list"

text \<open>What \<open>os.Stat\<close> and \<open>ioutil.ReadDir\<close> return for one entry (\<open>os.FileInfo\<close>).\<close>

record OsFileInfo =
  os_Name :: string
  os_Size :: int
  os_Mode :: "32 word"
  os_ModTime :: int
  os_IsDir :: bool
  os_Sys :: Stat_t

record kernel =
  k_Stat :: "trace \<Rightarrow> string \<Rightarrow> error + OsFileInfo"
  k_OpenFile :: "trace \<Rightarrow> string \<Rightarrow> int \<Rightarrow> 32 word \<Rightarrow> error option"
  k_ReadFile :: "trace \<Rightarrow> string \<Rightarrow> error + string"
  k_WriteFile :: "trace \<Rightarrow> string \<Rightarrow> string \<Rightarrow> 32 word \<Rightarrow> error option"
  k_ReadDir :: "trace \<Rightarrow> string \<Rightarrow> error + OsFileInfo list"
  k_AdjustPersonality :: "trace \<Rightarrow> MountHeader \<Rightarrow> error option"
  k_ResolveProcSelf :: "trace \<Rightarrow> 32 word \<Rightarrow> string \<Rightarrow> error + string"
  k_Mount :: "trace \<Rightarrow> string \<Rightarrow> string \<Rightarrow> string \<Rightarrow> 64 word \<Rightarrow> string \<Rightarrow> error option"
  k_Unmount :: "trace \<Rightarrow> string \<Rightarrow> int \<Rightarrow> error option"
  k_Chown :: "trace \<Rightarrow> string \<Rightarrow> int \<Rightarrow> int \<Rightarrow> error option"
  k_Getpid :: "trace \<Rightarrow> int"
  k_NewMountInfoParser :: "trace \<Rightarrow> 32 word \<Rightarrow> error option"
  k_ExtractMountInfo :: "trace \<Rightarrow> 32 word \<Rightarrow> error + MountInfo list"
  k_FileInode :: "trace \<Rightarrow> string \<Rightarrow> 64 word"

section \<open>The event\<close>

text \<open>
  \<open>NSenterEvent\<close>: the caller's PID, the two messages, the grand-child process
  (\<open>None\<close> is nil) and the asynchronous flag. The pipe and the reaper are passed to the
  functions that use them.
\<close>

record NSenterEvent =
  Pid :: "32 word"
  ReqMsg :: "request option"
  ResMsg :: "NSenterMessage option"
  Process :: "int option"
  async :: bool

section \<open>The agent's operations\<close>

text \<open>
  \<open>strconv.Atoi\<close> and \<open>strconv.ParseInt(s, 10, 64)\<close>: an optional sign and decimal
  digits, within 64 bits; anything else is an error.
\<close>

definition digit_of :: "char \<Rightarrow> nat option" where
  "digit_of c =
     (let n = (of_char c :: nat) in if 48 \<le> n \<and> n \<le> 57 then Some (n - 48) else None)"

fun parse_digits :: "string \<Rightarrow> nat \<Rightarrow> nat option" where
  "parse_digits [] acc = Some acc"
| "parse_digits (c # cs) acc =
     (case digit_of c of None \<Rightarrow> None | Some d \<Rightarrow> parse_digits cs (10 * acc + d))"

definition Atoi :: "string \<Rightarrow> error + int" where
  "Atoi s =
     (let neg = (s \<noteq> [] \<and> hd s = CHR ''-'');
          ds = (if s \<noteq> [] \<and> (hd s = CHR ''-'' \<or> hd s = CHR ''+'') then tl s else s)
      in if ds = [] then Inl (ErrorText ''invalid syntax'')
         else (case parse_digits ds 0 of
                 None \<Rightarrow> Inl (ErrorText ''invalid syntax'')
               | Some n \<Rightarrow>
                   (let v = (if neg then - int n else int n)
                    in if v < - (2 ^ 63) \<or> 2 ^ 63 \<le> v then Inl (ErrorText ''value out of range'')
                       else Inr v)))"

text \<open>
  \<open>strings.TrimSpace\<close> on the bytes of a procfs file: the ASCII white space (tab, line
  feed, vertical tab, form feed, carriage return, space) is cut from both ends.
\<close>

definition isSpace :: "char \<Rightarrow> bool" where
  "isSpace c = (c \<in> set [CHR 0x09, CHR 0x0A, CHR 0x0B, CHR 0x0C, CHR 0x0D, CHR '' ''])"

definition TrimSpace :: "string \<Rightarrow> string" where
  "TrimSpace s = rev (dropWhile isSpace (rev (dropWhile isSpace s)))"

text \<open>The error message every failing operation answers with.\<close>

definition errorResponse :: "error \<Rightarrow> NSenterMessage" where
  "errorResponse err = \<lparr>Type = ErrorResponse, Payload = PIOerrorPtr (IOerror (Some err))\<rparr>"

definition toFileInfo :: "OsFileInfo \<Rightarrow> FileInfo" where
  "toFileInfo info =
     \<lparr>Fname = os_Name info, Fsize = os_Size info, Fmode = os_Mode info,
      FmodTime = os_ModTime info, FisDir = os_IsDir info, Fsys = Some (os_Sys info)\<rparr>"

definition processLookupRequest ::
  "kernel \<Rightarrow> LookupPayload \<Rightarrow> NSenterEvent \<Rightarrow> trace \<Rightarrow> NSenterEvent \<times> trace"
where
  "processLookupRequest K payload e tr =
     (case k_Stat K tr (Entry payload) of
        Inl err \<Rightarrow> (e\<lparr>ResMsg := Some (errorResponse err)\<rparr>, tr @ [SysStat (Entry payload)])
      | Inr info \<Rightarrow>
          (e\<lparr>ResMsg := Some \<lparr>Type = LookupResponse, Payload = PFileInfo (toFileInfo info)\<rparr>\<rparr>,
           tr @ [SysStat (Entry payload)]))"

definition processOpenFileRequest ::
  "kernel \<Rightarrow> OpenFilePayload \<Rightarrow> NSenterEvent \<Rightarrow> trace \<Rightarrow> NSenterEvent \<times> trace"
where
  "processOpenFileRequest K payload e tr =
     (case Atoi (oFlags payload) of
        Inl err \<Rightarrow> (e\<lparr>ResMsg := Some (errorResponse err)\<rparr>, tr)
      | Inr openFlags \<Rightarrow>
          (case Atoi (oMode payload) of
             Inl err \<Rightarrow> (e\<lparr>ResMsg := Some (errorResponse err)\<rparr>, tr)
           | Inr mode \<Rightarrow>
               (case k_OpenFile K tr (oFile payload) openFlags (word_of_int mode) of
                  Some err \<Rightarrow>
                    (e\<lparr>ResMsg := Some (errorResponse err)\<rparr>,
                     tr @ [SysOpenFile (oFile payload) openFlags (word_of_int mode)])
                | None \<Rightarrow>
                    (e\<lparr>ResMsg := Some \<lparr>Type = OpenFileResponse, Payload = PNil\<rparr>\<rparr>,
                     tr @ [SysOpenFile (oFile payload) openFlags (word_of_int mode),
                           SysClose (oFile payload)]))))"

definition processFileReadRequest ::
  "kernel \<Rightarrow> ReadFilePayload \<Rightarrow> NSenterEvent \<Rightarrow> trace \<Rightarrow> NSenterEvent \<times> trace"
where
  "processFileReadRequest K payload e tr =
     (case k_ReadFile K tr (rFile payload) of
        Inl err \<Rightarrow> (e\<lparr>ResMsg := Some (errorResponse err)\<rparr>, tr @ [SysReadFile (rFile payload)])
      | Inr fileContent \<Rightarrow>
          (e\<lparr>ResMsg := Some \<lparr>Type = ReadFileResponse, Payload = PString (TrimSpace fileContent)\<rparr>\<rparr>,
           tr @ [SysReadFile (rFile payload)]))"

definition processFileWriteRequest ::
  "kernel \<Rightarrow> WriteFilePayload \<Rightarrow> NSenterEvent \<Rightarrow> trace \<Rightarrow> NSenterEvent \<times> trace"
where
  "processFileWriteRequest K payload e tr =
     (case k_WriteFile K tr (wFile payload) (wContent payload) 420 of
        Some err \<Rightarrow>
          (e\<lparr>ResMsg := Some (errorResponse err)\<rparr>,
           tr @ [SysWriteFile (wFile payload) (wContent payload) 420])
      | None \<Rightarrow>
          (e\<lparr>ResMsg := Some \<lparr>Type = WriteFileResponse, Payload = PNil\<rparr>\<rparr>,
           tr @ [SysWriteFile (wFile payload) (wContent payload) 420]))"

text \<open>
  \<open>ioutil.WriteFile\<close> is called with mode \<open>0644\<close>, which is 420. The loop of
  \<open>processDirReadRequest\<close> over the directory's entries appends one \<open>FileInfo\<close> per entry, in
  order.
\<close>

definition processDirReadRequest ::
  "kernel \<Rightarrow> ReadDirPayload \<Rightarrow> NSenterEvent \<Rightarrow> trace \<Rightarrow> NSenterEvent \<times> trace"
where
  "processDirReadRequest K payload e tr =
     (case k_ReadDir K tr (Dir payload) of
        Inl err \<Rightarrow> (e\<lparr>ResMsg := Some (errorResponse err)\<rparr>, tr @ [SysReadDir (Dir payload)])
      | Inr dirContent \<Rightarrow>
          (e\<lparr>ResMsg := Some \<lparr>Type = ReadDirResponse,
                              Payload = PFileInfoSlice (map toFileInfo dirContent)\<rparr>\<rparr>,
           tr @ [SysReadDir (Dir payload)]))"

text \<open>
  A Go call either returns or panics (an index out of range, a nil pointer
  dereference); a panic keeps the trace it leaves behind.
\<close>

datatype 'a outcome = Panic trace | Returned 'a

definition MS_REMOUNT :: "64 word" where
  "MS_REMOUNT = 0x20"

text \<open>
  The mount loop of \<open>processMountSyscallRequest\<close>, \<open>for i = 0; i < len(payload); i++\<close>.
  The first list is \<open>payload[i:]\<close>, the second \<open>payload[:i]\<close> as the loop has rewritten it
  in place (source and target resolved). It returns \<open>payload[:i]\<close> and \<open>err\<close> as they are
  when the loop is left.
\<close>

fun mountLoop ::
  "kernel \<Rightarrow> 32 word \<Rightarrow> MountSyscallPayload list \<Rightarrow> MountSyscallPayload list \<Rightarrow> trace \<Rightarrow>
   MountSyscallPayload list \<times> error option \<times> trace"
where
  "mountLoop K pid [] mounted tr = (mounted, None, tr)"
| "mountLoop K pid (p # rest) mounted tr =
     (case k_ResolveProcSelf K tr pid (Source p) of
        Inl err \<Rightarrow> (mounted, Some err, tr @ [SysResolveProcSelf pid (Source p)])
      | Inr src \<Rightarrow>
          (let tr1 = tr @ [SysResolveProcSelf pid (Source p)] in
           case k_ResolveProcSelf K tr1 pid (Target p) of
             Inl err \<Rightarrow> (mounted, Some err, tr1 @ [SysResolveProcSelf pid (Target p)])
           | Inr tgt \<Rightarrow>
               (let tr2 = tr1 @ [SysResolveProcSelf pid (Target p)] in
                case k_Mount K tr2 src tgt (FsType p) (Flags p) (Data p) of
                  Some err \<Rightarrow>
                    (mounted, Some err, tr2 @ [SysMount src tgt (FsType p) (Flags p) (Data p)])
                | None \<Rightarrow>
                    mountLoop K pid rest (mounted @ [p\<lparr>Source := src, Target := tgt\<rparr>])
                      (tr2 @ [SysMount src tgt (FsType p) (Flags p) (Data p)]))))"

text \<open>
  The rollback loop, \<open>for j := i - 1; j >= 0; j--\<close>, on \<open>payload[:i]\<close> reversed. The result
  of \<open>unix.Unmount\<close> is dropped by the source.
\<close>

fun mountRollback :: "MountSyscallPayload list \<Rightarrow> trace \<Rightarrow> trace" where
  "mountRollback [] tr = tr"
| "mountRollback (p # ps) tr =
     mountRollback ps
       (if Flags p AND MS_REMOUNT \<noteq> MS_REMOUNT then tr @ [SysUnmount (Target p) 0] else tr)"

definition mountBatch ::
  "kernel \<Rightarrow> MountSyscallPayload list \<Rightarrow> NSenterEvent \<Rightarrow> trace \<Rightarrow> NSenterEvent \<times> trace"
where
  "mountBatch K payload e tr =
     (case mountLoop K (Pid e) payload [] tr of
        (mounted, Some err, tr') \<Rightarrow>
          (e\<lparr>ResMsg := Some (errorResponse err)\<rparr>, mountRollback (rev mounted) tr')
      | (mounted, None, tr') \<Rightarrow>
          (e\<lparr>ResMsg := Some \<lparr>Type = MountSyscallResponse, Payload = PString []\<rparr>\<rparr>, tr'))"

text \<open>\<open>payload[0]\<close> panics on an empty batch.\<close>

definition processMountSyscallRequest ::
  "kernel \<Rightarrow> MountSyscallPayload list \<Rightarrow> NSenterEvent \<Rightarrow> trace \<Rightarrow> (NSenterEvent \<times> trace) outcome"
where
  "processMountSyscallRequest K payload e tr =
     (case payload of
        [] \<Rightarrow> Panic tr
      | p0 # _ \<Rightarrow>
          (let header = Header p0 in
           if FsType p0 = ''overlay'' then
             (case k_AdjustPersonality K tr header of
                Some err \<Rightarrow>
                  Returned (e\<lparr>ResMsg := Some (errorResponse err)\<rparr>, tr @ [SysAdjustPersonality header])
              | None \<Rightarrow> Returned (mountBatch K payload e (tr @ [SysAdjustPersonality header])))
           else Returned (mountBatch K payload e tr)))"

text \<open>
  The unmount loop. It returns \<open>err\<close> as it is when the loop is left; \<open>ResMsg\<close> is set inside
  the loop only where \<open>unix.Unmount\<close> fails. \<open>int(payload[i].Flags)\<close> reads the 64 bits as
  a signed number.
\<close>

fun umountLoop ::
  "kernel \<Rightarrow> 32 word \<Rightarrow> UmountSyscallPayload list \<Rightarrow> NSenterEvent \<Rightarrow> trace \<Rightarrow>
   error option \<times> NSenterEvent \<times> trace"
where
  "umountLoop K pid [] e tr = (None, e, tr)"
| "umountLoop K pid (p # rest) e tr =
     (case k_ResolveProcSelf K tr pid (uTarget p) of
        Inl err \<Rightarrow> (Some err, e, tr @ [SysResolveProcSelf pid (uTarget p)])
      | Inr tgt \<Rightarrow>
          (let tr1 = tr @ [SysResolveProcSelf pid (uTarget p)] in
           case k_Unmount K tr1 tgt (sint (uFlags p)) of
             Some err \<Rightarrow>
               (Some err, e\<lparr>ResMsg := Some (errorResponse err)\<rparr>,
                tr1 @ [SysUnmount tgt (sint (uFlags p))])
           | None \<Rightarrow> umountLoop K pid rest e (tr1 @ [SysUnmount tgt (sint (uFlags p))])))"

definition processUmountSyscallRequest ::
  "kernel \<Rightarrow> UmountSyscallPayload list \<Rightarrow> NSenterEvent \<Rightarrow> trace \<Rightarrow> NSenterEvent \<times> trace"
where
  "processUmountSyscallRequest K payload e tr =
     (case umountLoop K (Pid e) payload e tr of
        (Some err, e', tr') \<Rightarrow> (e', tr')
      | (None, e', tr') \<Rightarrow>
          (e'\<lparr>ResMsg := Some \<lparr>Type = UmountSyscallResponse, Payload = PString []\<rparr>\<rparr>, tr'))"

text \<open>
  The chown loop, \<open>for _, p := range payload\<close>. The flag returned says whether the
  function returned from inside the loop (a failed \<open>unix.Chown\<close>); a failed
  \<open>ResolveProcSelf\<close> leaves the loop by \<open>break\<close>.
\<close>

fun chownLoop ::
  "kernel \<Rightarrow> 32 word \<Rightarrow> ChownSyscallPayload list \<Rightarrow> NSenterEvent \<Rightarrow> trace \<Rightarrow>
   bool \<times> NSenterEvent \<times> trace"
where
  "chownLoop K pid [] e tr = (False, e, tr)"
| "chownLoop K pid (p # rest) e tr =
     (case k_ResolveProcSelf K tr pid (cTarget p) of
        Inl err \<Rightarrow> (False, e, tr @ [SysResolveProcSelf pid (cTarget p)])
      | Inr tgt \<Rightarrow>
          (let tr1 = tr @ [SysResolveProcSelf pid (cTarget p)] in
           case k_Chown K tr1 tgt (TargetUid p) (TargetGid p) of
             Some err \<Rightarrow>
               (True, e\<lparr>ResMsg := Some (errorResponse err)\<rparr>,
                tr1 @ [SysChown tgt (TargetUid p) (TargetGid p)])
           | None \<Rightarrow> chownLoop K pid rest e (tr1 @ [SysChown tgt (TargetUid p) (TargetGid p)])))"

definition processChownSyscallRequest ::
  "kernel \<Rightarrow> ChownSyscallPayload list \<Rightarrow> NSenterEvent \<Rightarrow> trace \<Rightarrow> NSenterEvent \<times> trace"
where
  "processChownSyscallRequest K payload e tr =
     (case chownLoop K (Pid e) payload e tr of
        (True, e', tr') \<Rightarrow> (e', tr')
      | (False, e', tr') \<Rightarrow>
          (e'\<lparr>ResMsg := Some \<lparr>Type = ChownSyscallResponse, Payload = PString []\<rparr>\<rparr>, tr'))"

text \<open>\<open>uint32(pid)\<close> of \<open>os.Getpid()\<close> keeps the low 32 bits.\<close>

definition processMountInfoRequest :: "kernel \<Rightarrow> NSenterEvent \<Rightarrow> trace \<Rightarrow> NSenterEvent \<times> trace"
where
  "processMountInfoRequest K e tr =
     (let pid = word_of_int (k_Getpid K tr) :: 32 word;
          tr1 = tr @ [SysGetpid]
      in case k_NewMountInfoParser K tr1 pid of
           Some err \<Rightarrow> (e\<lparr>ResMsg := Some (errorResponse err)\<rparr>, tr1 @ [SysNewMountInfoParser pid])
         | None \<Rightarrow>
             (let tr2 = tr1 @ [SysNewMountInfoParser pid] in
              case k_ExtractMountInfo K tr2 pid of
                Inl err \<Rightarrow> (e\<lparr>ResMsg := Some (errorResponse err)\<rparr>, tr2 @ [SysExtractMountInfo pid])
              | Inr mountInfoData \<Rightarrow>
                  (e\<lparr>ResMsg := Some \<lparr>Type = MountInfoResponse,
                                      Payload = PMountInfoRespPtr (MountInfoRespPayload mountInfoData)\<rparr>\<rparr>,
                   tr2 @ [SysExtractMountInfo pid])))"

text \<open>The loop over the mountpoints appends one inode per mountpoint, in order.\<close>

fun mountInodeLoop :: "kernel \<Rightarrow> string list \<Rightarrow> 64 word list \<Rightarrow> trace \<Rightarrow> 64 word list \<times> trace" where
  "mountInodeLoop K [] mpInodeList tr = (mpInodeList, tr)"
| "mountInodeLoop K (mp # mps) mpInodeList tr =
     mountInodeLoop K mps (mpInodeList @ [k_FileInode K tr mp]) (tr @ [SysFileInode mp])"

definition processMountInodeRequest ::
  "kernel \<Rightarrow> MountInodeReqPayload \<Rightarrow> NSenterEvent \<Rightarrow> trace \<Rightarrow> NSenterEvent \<times> trace"
where
  "processMountInodeRequest K payload e tr =
     (case mountInodeLoop K (Mountpoints payload) [] tr of
        (mpInodeList, tr') \<Rightarrow>
          (e\<lparr>ResMsg := Some \<lparr>Type = MountInodeResponse,
                              Payload = PMountInodeRespPtr (MountInodeRespPayload mpInodeList)\<rparr>\<rparr>,
           tr'))"

text \<open>
  \<open>time.Duration(ival) * time.Second\<close> is a 64-bit product, which wraps; the event keeps the
  duration in nanoseconds.
\<close>

definition processSleepRequest ::
  "kernel \<Rightarrow> SleepReqPayload \<Rightarrow> NSenterEvent \<Rightarrow> trace \<Rightarrow> NSenterEvent \<times> trace"
where
  "processSleepRequest K payload e tr =
     (case Atoi (Ival payload) of
        Inl err \<Rightarrow> (e\<lparr>ResMsg := Some (errorResponse err)\<rparr>, tr)
      | Inr ival \<Rightarrow>
          (e\<lparr>ResMsg := Some \<lparr>Type = SleepResponse, Payload = PString []\<rparr>\<rparr>,
           tr @ [SysSleep (sint (word_of_int ival * 1000000000 :: 64 word))]))"

section \<open>The agent's side of the pipe\<close>

text \<open>
  \<open>syscall.Ucred\<close>; its \<open>Pid\<close> is an \<open>int32\<close>, kept as its value. A control message is
  a credentials message or something else, for which \<open>ParseUnixCredentials\<close> fails.
\<close>

record Ucred =
  uPid :: int
  uUid :: "32 word"
  uGid :: "32 word"

datatype cmsg = ScmCredentials Ucred | ScmOther

text \<open>
  What the agent finds on the pipe it inherits: the result of setting \<open>SO_PASSCRED\<close>, of
  \<open>Recvmsg\<close> with \<open>ParseSocketControlMessage\<close>, of the two decoding phases of the
  request (the envelope, then the payload by the envelope's tag), and of writing the
  response.
\<close>

datatype recv = RecvError error | ParseError error | ControlMessages "cmsg list"

datatype request_read = EnvelopeError error | PayloadError error | Decoded request

record agent_pipe =
  p_setsockopt :: "error option"
  p_recvmsg :: recv
  p_request :: request_read
  p_write :: "error option"

definition getProcCreds :: "agent_pipe \<Rightarrow> NSenterEvent \<Rightarrow> error option \<times> NSenterEvent" where
  "getProcCreds pipe e =
     (case p_setsockopt pipe of
        Some err \<Rightarrow> (Some (ErrorText ''Error setting socket options for credential passing''), e)
      | None \<Rightarrow>
          (case p_recvmsg pipe of
             RecvError err \<Rightarrow> (Some (ErrorText ''Error decoding received process credentials.''), e)
           | ParseError err \<Rightarrow> (Some (ErrorText ''Error parsing socket control msg.''), e)
           | ControlMessages msgs \<Rightarrow>
               (case msgs of
                  [ScmCredentials procCred] \<Rightarrow> (None, e\<lparr>Pid := word_of_int (uPid procCred)\<rparr>)
                | [ScmOther] \<Rightarrow> (Some (ErrorText ''Error parsing unix credentials.''), e)
                | _ \<Rightarrow> (Some (ErrorText ''Error parsing socket control msg.''), e))))"

definition returnNil :: "NSenterEvent \<times> trace \<Rightarrow> (error option \<times> NSenterEvent \<times> trace) outcome" where
  "returnNil r = Returned (None, fst r, snd r)"

text \<open>The \<open>switch nsenterMsg.Type\<close> of \<open>processRequest\<close>, on the decoded request.\<close>

fun dispatchRequest ::
  "kernel \<Rightarrow> request \<Rightarrow> NSenterEvent \<Rightarrow> trace \<Rightarrow> (error option \<times> NSenterEvent \<times> trace) outcome"
where
  "dispatchRequest K (LookupReq p) e tr =
     returnNil (processLookupRequest K p (e\<lparr>ReqMsg := Some (LookupReq p)\<rparr>) tr)"
| "dispatchRequest K (OpenFileReq p) e tr =
     returnNil (processOpenFileRequest K p (e\<lparr>ReqMsg := Some (OpenFileReq p)\<rparr>) tr)"
| "dispatchRequest K (ReadFileReq p) e tr =
     returnNil (processFileReadRequest K p (e\<lparr>ReqMsg := Some (ReadFileReq p)\<rparr>) tr)"
| "dispatchRequest K (WriteFileReq p) e tr =
     returnNil (processFileWriteRequest K p (e\<lparr>ReqMsg := Some (WriteFileReq p)\<rparr>) tr)"
| "dispatchRequest K (ReadDirReq p) e tr =
     returnNil (processDirReadRequest K p (e\<lparr>ReqMsg := Some (ReadDirReq p)\<rparr>) tr)"
| "dispatchRequest K (MountSyscallReq p) e tr =
     (case processMountSyscallRequest K p (e\<lparr>ReqMsg := Some (MountSyscallReq p)\<rparr>) tr of
        Panic tr' \<Rightarrow> Panic tr'
      | Returned r \<Rightarrow> returnNil r)"
| "dispatchRequest K (UmountSyscallReq p) e tr =
     returnNil (processUmountSyscallRequest K p (e\<lparr>ReqMsg := Some (UmountSyscallReq p)\<rparr>) tr)"
| "dispatchRequest K MountInfoReq e tr =
     returnNil (processMountInfoRequest K (e\<lparr>ReqMsg := Some MountInfoReq\<rparr>) tr)"
| "dispatchRequest K (MountInodeReq p) e tr =
     returnNil (processMountInodeRequest K p (e\<lparr>ReqMsg := Some (MountInodeReq p)\<rparr>) tr)"
| "dispatchRequest K (ChownSyscallReq p) e tr =
     returnNil (processChownSyscallRequest K p (e\<lparr>ReqMsg := Some (ChownSyscallReq p)\<rparr>) tr)"
| "dispatchRequest K (SleepReq p) e tr =
     returnNil (processSleepRequest K p (e\<lparr>ReqMsg := Some (SleepReq p)\<rparr>) tr)"
| "dispatchRequest K (UnsupportedReq t) e tr =
     Returned (None,
       e\<lparr>ResMsg := Some \<lparr>Type = ErrorResponse, Payload = PString ''Unsupported request''\<rparr>\<rparr>, tr)"

definition processRequest ::
  "kernel \<Rightarrow> agent_pipe \<Rightarrow> NSenterEvent \<Rightarrow> trace \<Rightarrow> (error option \<times> NSenterEvent \<times> trace) outcome"
where
  "processRequest K pipe e tr =
     (case getProcCreds pipe e of
        (Some err, e') \<Rightarrow> Returned (Some err, e', tr)
      | (None, e') \<Rightarrow>
          (case p_request pipe of
             EnvelopeError err \<Rightarrow>
               Returned (Some (ErrorText ''Error decoding received event request.''), e', tr)
           | PayloadError err \<Rightarrow> Returned (Some err, e', tr)
           | Decoded req \<Rightarrow> dispatchRequest K req e' tr))"

section \<open>The wire format\<close>

text \<open>
  \<open>encoding/json\<close> at the level of JSON values. \<open>Marshal\<close> maps a Go value to a JSON
  value: nil and a nil slice to \<open>null\<close>, a struct and a pointer to a struct to an object
  with one member per field. \<open>Unmarshal\<close> into a variable of a given type sets the fields
  an object names, skips members it does not know and members that are \<open>null\<close>, and fails
  on a value of the wrong kind. A Go string is a sequence of bytes; \<open>Marshal\<close> writes, and
  \<open>Unmarshal\<close> reads, every byte of a string that is not part of a valid UTF-8 sequence as
  the replacement character U+FFFD.
\<close>

datatype json =
    JNull
  | JBool bool
  | JNum int
  | JStr string
  | JArr "json list"
  | JObj "(string \<times> json) list"

text \<open>
  \<open>utf8.DecodeRuneInString\<close>, as the encoder uses it: \<open>runeLen s\<close> is the number of bytes
  of the UTF-8 sequence that \<open>s\<close> starts with, and 0 when \<open>s\<close> is empty or starts with an
  invalid sequence (a lone continuation byte, an overlong form, a surrogate, a value above
  U+10FFFF, a truncated sequence). \<open>accept\<close> checks the continuation bytes against their
  ranges. \<open>coerceUTF8\<close> is the string as it is written: an invalid byte becomes the three
  bytes of U+FFFD and the scan goes on with the next byte.
\<close>

definition byteIn :: "nat \<Rightarrow> nat \<Rightarrow> char \<Rightarrow> bool" where
  "byteIn lo hi c = (lo \<le> (of_char c :: nat) \<and> (of_char c :: nat) \<le> hi)"

fun accept :: "(nat \<times> nat) list \<Rightarrow> string \<Rightarrow> bool" where
  "accept [] r = True"
| "accept (rg # ranges) [] = False"
| "accept (rg # ranges) (c # cs) = (byteIn (fst rg) (snd rg) c \<and> accept ranges cs)"

definition runeLen :: "string \<Rightarrow> nat" where
  "runeLen s =
     (case s of
        [] \<Rightarrow> 0
      | b0 # r \<Rightarrow>
          (let x = (of_char b0 :: nat) in
           if x < 0x80 then 1
           else if x < 0xC2 then 0
           else if x < 0xE0 then (if accept [(0x80, 0xBF)] r then 2 else 0)
           else if x < 0xF0 then
             (if accept [(if x = 0xE0 then 0xA0 else 0x80, if x = 0xED then 0x9F else 0xBF),
                         (0x80, 0xBF)] r then 3 else 0)
           else if x < 0xF5 then
             (if accept [(if x = 0xF0 then 0x90 else 0x80, if x = 0xF4 then 0x8F else 0xBF),
                         (0x80, 0xBF), (0x80, 0xBF)] r then 4 else 0)
           else 0))"

definition replacementChar :: string where
  "replacementChar = [CHR 0xEF, CHR 0xBF, CHR 0xBD]"

function coerceUTF8 :: "string \<Rightarrow> string" where
  "coerceUTF8 [] = []"
| "coerceUTF8 (b # bs) =
     (if runeLen (b # bs) = 0 then replacementChar @ coerceUTF8 bs
      else take (runeLen (b # bs)) (b # bs) @ coerceUTF8 (drop (runeLen (b # bs)) (b # bs)))"
  by pat_completeness auto
termination
  by (relation "measure length") auto


definition typeError :: error where
  "typeError = ErrorText ''json: cannot unmarshal value into Go value''"

fun decode_fields ::
  "(string \<Rightarrow> json \<Rightarrow> 'a \<Rightarrow> error + 'a) \<Rightarrow> (string \<times> json) list \<Rightarrow> 'a \<Rightarrow> error + 'a"
where
  "decode_fields f [] x = Inr x"
| "decode_fields f ((k, v) # kvs) x =
     (if v = JNull then decode_fields f kvs x
      else (case f k v x of Inl err \<Rightarrow> Inl err | Inr x' \<Rightarrow> decode_fields f kvs x'))"

fun decode_elems :: "('b \<Rightarrow> error + 'a) \<Rightarrow> 'b list \<Rightarrow> error + 'a list" where
  "decode_elems f [] = Inr []"
| "decode_elems f (j # js) =
     (case f j of
        Inl err \<Rightarrow> Inl err
      | Inr x \<Rightarrow> (case decode_elems f js of Inl err \<Rightarrow> Inl err | Inr xs \<Rightarrow> Inr (x # xs)))"

definition dec_int :: "json \<Rightarrow> error + int" where
  "dec_int j = (case j of JNum i \<Rightarrow> Inr i | _ \<Rightarrow> Inl typeError)"

definition dec_string :: "json \<Rightarrow> error + string" where
  "dec_string j = (case j of JStr s \<Rightarrow> Inr (coerceUTF8 s) | _ \<Rightarrow> Inl typeError)"

definition dec_bool :: "json \<Rightarrow> error + bool" where
  "dec_bool j = (case j of JBool b \<Rightarrow> Inr b | _ \<Rightarrow> Inl typeError)"

definition dec_word :: "json \<Rightarrow> error + 'a::len word" where
  "dec_word j =
     (case j of
        JNum i \<Rightarrow> if 0 \<le> i \<and> i < 2 ^ LENGTH('a) then Inr (word_of_int i) else Inl typeError
      | _ \<Rightarrow> Inl typeError)"

definition enc_Stat_t :: "Stat_t \<Rightarrow> json" where
  "enc_Stat_t st = JObj (map (\<lambda>kv. (fst kv, JNum (snd kv))) st)"

definition dec_Stat_t :: "json \<Rightarrow> error + Stat_t" where
  "dec_Stat_t j =
     (case j of
        JObj kvs \<Rightarrow>
          decode_elems
            (\<lambda>kv. case dec_int (snd kv) of Inl err \<Rightarrow> Inl err | Inr i \<Rightarrow> Inr (fst kv, i)) kvs
      | _ \<Rightarrow> Inl typeError)"

definition enc_FileInfo :: "FileInfo \<Rightarrow> json" where
  "enc_FileInfo fi =
     JObj [(''Fname'', JStr (coerceUTF8 (Fname fi))), (''Fsize'', JNum (Fsize fi)),
           (''Fmode'', JNum (uint (Fmode fi))), (''FmodTime'', JNum (FmodTime fi)),
           (''FisDir'', JBool (FisDir fi)),
           (''Fsys'', case Fsys fi of None \<Rightarrow> JNull | Some st \<Rightarrow> enc_Stat_t st)]"

definition zeroFileInfo :: FileInfo where
  "zeroFileInfo = \<lparr>Fname = [], Fsize = 0, Fmode = 0, FmodTime = 0, FisDir = False, Fsys = None\<rparr>"

definition set_FileInfo_field :: "string \<Rightarrow> json \<Rightarrow> FileInfo \<Rightarrow> error + FileInfo" where
  "set_FileInfo_field k v fi =
     (if k = ''Fname'' then map_sum id (\<lambda>x. fi\<lparr>Fname := x\<rparr>) (dec_string v)
      else if k = ''Fsize'' then map_sum id (\<lambda>x. fi\<lparr>Fsize := x\<rparr>) (dec_int v)
      else if k = ''Fmode'' then map_sum id (\<lambda>x. fi\<lparr>Fmode := x\<rparr>) (dec_word v)
      else if k = ''FmodTime'' then map_sum id (\<lambda>x. fi\<lparr>FmodTime := x\<rparr>) (dec_int v)
      else if k = ''FisDir'' then map_sum id (\<lambda>x. fi\<lparr>FisDir := x\<rparr>) (dec_bool v)
      else if k = ''Fsys'' then map_sum id (\<lambda>x. fi\<lparr>Fsys := Some x\<rparr>) (dec_Stat_t v)
      else Inr fi)"

definition dec_FileInfo :: "json \<Rightarrow> error + FileInfo" where
  "dec_FileInfo j =
     (case j of
        JNull \<Rightarrow> Inr zeroFileInfo
      | JObj kvs \<Rightarrow> decode_fields set_FileInfo_field kvs zeroFileInfo
      | _ \<Rightarrow> Inl typeError)"

definition enc_MountInfo :: "MountInfo \<Rightarrow> json" where
  "enc_MountInfo m =
     JObj [(''MountID'', JNum (MountID m)), (''ParentID'', JNum (ParentID m)),
           (''MajorMinorVer'', JStr (coerceUTF8 (MajorMinorVer m))),
           (''Root'', JStr (coerceUTF8 (Root m))),
           (''MountPoint'', JStr (coerceUTF8 (MountPoint m))),
           (''Options'', JStr (coerceUTF8 (Options m))),
           (''FsType'', JStr (coerceUTF8 (MFsType m))),
           (''Source'', JStr (coerceUTF8 (MSource m))),
           (''VfsOptions'', JStr (coerceUTF8 (VfsOptions m)))]"

definition zeroMountInfo :: MountInfo where
  "zeroMountInfo =
     \<lparr>MountID = 0, ParentID = 0, MajorMinorVer = [], Root = [], MountPoint = [], Options = [],
      MFsType = [], MSource = [], VfsOptions = []\<rparr>"

definition set_MountInfo_field :: "string \<Rightarrow> json \<Rightarrow> MountInfo \<Rightarrow> error + MountInfo" where
  "set_MountInfo_field k v m =
     (if k = ''MountID'' then map_sum id (\<lambda>x. m\<lparr>MountID := x\<rparr>) (dec_int v)
      else if k = ''ParentID'' then map_sum id (\<lambda>x. m\<lparr>ParentID := x\<rparr>) (dec_int v)
      else if k = ''MajorMinorVer'' then map_sum id (\<lambda>x. m\<lparr>MajorMinorVer := x\<rparr>) (dec_string v)
      else if k = ''Root'' then map_sum id (\<lambda>x. m\<lparr>Root := x\<rparr>) (dec_string v)
      else if k = ''MountPoint'' then map_sum id (\<lambda>x. m\<lparr>MountPoint := x\<rparr>) (dec_string v)
      else if k = ''Options'' then map_sum id (\<lambda>x. m\<lparr>Options := x\<rparr>) (dec_string v)
      else if k = ''FsType'' then map_sum id (\<lambda>x. m\<lparr>MFsType := x\<rparr>) (dec_string v)
      else if k = ''Source'' then map_sum id (\<lambda>x. m\<lparr>MSource := x\<rparr>) (dec_string v)
      else if k = ''VfsOptions'' then map_sum id (\<lambda>x. m\<lparr>VfsOptions := x\<rparr>) (dec_string v)
      else Inr m)"

definition dec_MountInfo :: "json \<Rightarrow> error + MountInfo" where
  "dec_MountInfo j =
     (case j of
        JNull \<Rightarrow> Inr zeroMountInfo
      | JObj kvs \<Rightarrow> decode_fields set_MountInfo_field kvs zeroMountInfo
      | _ \<Rightarrow> Inl typeError)"

text \<open>A slice field: a nil slice is written as \<open>null\<close>, any other as an array.\<close>

definition enc_slice :: "('a \<Rightarrow> json) \<Rightarrow> 'a list \<Rightarrow> json" where
  "enc_slice f xs = (if xs = [] then JNull else JArr (map f xs))"

definition dec_slice :: "(json \<Rightarrow> error + 'a) \<Rightarrow> json \<Rightarrow> error + 'a list" where
  "dec_slice f j = (case j of JArr js \<Rightarrow> decode_elems f js | _ \<Rightarrow> Inl typeError)"

definition enc_MountInfoRespPayload :: "MountInfoRespPayload \<Rightarrow> json" where
  "enc_MountInfoRespPayload p = JObj [(''Data'', enc_slice enc_MountInfo (MountInfoData p))]"

definition dec_MountInfoRespPayload :: "json \<Rightarrow> error + MountInfoRespPayload" where
  "dec_MountInfoRespPayload j =
     (case j of
        JObj kvs \<Rightarrow>
          decode_fields
            (\<lambda>k v p. if k = ''Data'' then map_sum id MountInfoRespPayload (dec_slice dec_MountInfo v)
                     else Inr p)
            kvs (MountInfoRespPayload [])
      | _ \<Rightarrow> Inl typeError)"

definition enc_MountInodeRespPayload :: "MountInodeRespPayload \<Rightarrow> json" where
  "enc_MountInodeRespPayload p =
     JObj [(''MpInodeList'', enc_slice (\<lambda>w. JNum (uint w)) (MpInodeList p))]"

definition dec_MountInodeRespPayload :: "json \<Rightarrow> error + MountInodeRespPayload" where
  "dec_MountInodeRespPayload j =
     (case j of
        JObj kvs \<Rightarrow>
          decode_fields
            (\<lambda>k v p. if k = ''MpInodeList'' then map_sum id MountInodeRespPayload (dec_slice dec_word v)
                     else Inr p)
            kvs (MountInodeRespPayload [])
      | _ \<Rightarrow> Inl typeError)"

text \<open>
  Modelled from the spec: the wire form of \<open>fuse.IOerror\<close> (the \<open>fuse\<close> package is not
  among the sources), whose payload is the raw errno-equivalent captured at the agent.
\<close>

definition enc_error :: "error \<Rightarrow> json" where
  "enc_error err =
     (case err of
        EOF \<Rightarrow> JStr ''EOF''
      | Errno n \<Rightarrow> JNum (int n)
      | ErrorText s \<Rightarrow> JObj [(''Message'', JStr (coerceUTF8 s))])"

definition dec_error :: "json \<Rightarrow> error + error" where
  "dec_error j =
     (case j of
        JStr s \<Rightarrow> if s = ''EOF'' then Inr EOF else Inl typeError
      | JNum i \<Rightarrow> if 0 \<le> i then Inr (Errno (nat i)) else Inl typeError
      | JObj kvs \<Rightarrow>
          (case kvs of
             [(k, JStr s)] \<Rightarrow> if k = ''Message'' then Inr (ErrorText (coerceUTF8 s)) else Inl typeError
           | _ \<Rightarrow> Inl typeError)
      | _ \<Rightarrow> Inl typeError)"

definition enc_IOerror :: "IOerror \<Rightarrow> json" where
  "enc_IOerror x =
     JObj [(''RcvError'', case RcvError x of None \<Rightarrow> JNull | Some err \<Rightarrow> enc_error err)]"

definition dec_IOerror :: "json \<Rightarrow> error + IOerror" where
  "dec_IOerror j =
     (case j of
        JObj kvs \<Rightarrow>
          decode_fields
            (\<lambda>k v p. if k = ''RcvError'' then map_sum id (\<lambda>err. IOerror (Some err)) (dec_error v)
                     else Inr p)
            kvs (IOerror None)
      | _ \<Rightarrow> Inl typeError)"

text \<open>
  The envelope on the wire, \<open>{Type, Payload}\<close>: the tag and the payload's JSON value.
  \<open>Marshal\<close> is \<open>json.Marshal\<close> of a message.
\<close>

record wire_msg =
  wType :: NSenterMsgType
  wPayload :: json

fun MarshalPayload :: "payload \<Rightarrow> json" where
  "MarshalPayload PNil = JNull"
| "MarshalPayload (PInt i) = JNum i"
| "MarshalPayload (PString s) = JStr (coerceUTF8 s)"
| "MarshalPayload (PFileInfo fi) = enc_FileInfo fi"
| "MarshalPayload (PFileInfoSlice fis) = enc_slice enc_FileInfo fis"
| "MarshalPayload (PIOerror x) = enc_IOerror x"
| "MarshalPayload (PIOerrorPtr x) = enc_IOerror x"
| "MarshalPayload (PMountInfoResp p) = enc_MountInfoRespPayload p"
| "MarshalPayload (PMountInfoRespPtr p) = enc_MountInfoRespPayload p"
| "MarshalPayload (PMountInodeResp p) = enc_MountInodeRespPayload p"
| "MarshalPayload (PMountInodeRespPtr p) = enc_MountInodeRespPayload p"

definition Marshal :: "NSenterMessage \<Rightarrow> wire_msg" where
  "Marshal m = \<lparr>wType = Type m, wPayload = MarshalPayload (Payload m)\<rparr>"

section \<open>The agent's entry point and the master's decoding of the response\<close>

text \<open>
  \<open>Init\<close>: the event starts with every field zero. A nil \<open>ResMsg\<close> makes
  \<open>*(event.ResMsg)\<close> panic. The result is the error returned, what was written on the pipe,
  the event and the trace.
\<close>

definition Init ::
  "kernel \<Rightarrow> string \<Rightarrow> agent_pipe \<Rightarrow> trace \<Rightarrow>
   (error option \<times> wire_msg option \<times> NSenterEvent \<times> trace) outcome"
where
  "Init K envInitPipe pipe tr =
     (let event = \<lparr>Pid = 0, ReqMsg = None, ResMsg = None, Process = None, async = False\<rparr> in
      case Atoi envInitPipe of
        Inl err \<Rightarrow>
          Returned (Some (ErrorText ''Unable to convert _LIBCONTAINER_INITPIPE to int''), None, event, tr)
      | Inr pipefd \<Rightarrow>
          (case processRequest K pipe event tr of
             Panic tr' \<Rightarrow> Panic tr'
           | Returned (err, event1, tr') \<Rightarrow>
               (let event2 = (case err of
                                Some er \<Rightarrow> event1\<lparr>ResMsg := Some (errorResponse er)\<rparr>
                              | None \<Rightarrow> event1)
                in case ResMsg event2 of
                     None \<Rightarrow> Panic tr'
                   | Some m \<Rightarrow>
                       (case p_write pipe of
                          Some werr \<Rightarrow> Returned (Some werr, None, event2, tr')
                        | None \<Rightarrow> Returned (None, Some (Marshal m), event2, tr')))))"

text \<open>
  What the master reads from its end of the pipe: a failure of the envelope's decoding, or
  the envelope. \<open>unmarshalInto\<close> is the second phase,
  \<open>var p T; if payload != nil { json.Unmarshal(payload, &p) }\<close>: the raw payload is nil
  exactly when the envelope's payload is \<open>null\<close>.
\<close>

datatype response_read = ReadError error | Envelope wire_msg

definition unmarshalInto :: "(json \<Rightarrow> error + 'a) \<Rightarrow> 'a \<Rightarrow> json \<Rightarrow> error + 'a" where
  "unmarshalInto dec p payload = (if payload \<noteq> JNull then dec payload else Inr p)"

definition setResMsg ::
  "NSenterEvent \<Rightarrow> NSenterMsgType \<Rightarrow> ('a \<Rightarrow> payload) \<Rightarrow> error + 'a \<Rightarrow> error option \<times> NSenterEvent"
where
  "setResMsg e t mk r =
     (case r of
        Inl err \<Rightarrow> (Some err, e)
      | Inr p \<Rightarrow> (None, e\<lparr>ResMsg := Some \<lparr>Type = t, Payload = mk p\<rparr>\<rparr>))"

definition processResponse :: "response_read \<Rightarrow> NSenterEvent \<Rightarrow> error option \<times> NSenterEvent" where
  "processResponse pipe e =
     (case pipe of
        ReadError err \<Rightarrow> (Some (ErrorText ''Error decoding received nsenterMsg response''), e)
      | Envelope nsenterMsg \<Rightarrow>
          (let payload = wPayload nsenterMsg; t = wType nsenterMsg in
           case t of
             LookupResponse \<Rightarrow>
               setResMsg e t PFileInfo (unmarshalInto dec_FileInfo zeroFileInfo payload)
           | OpenFileResponse \<Rightarrow> setResMsg e t PInt (unmarshalInto dec_int 0 payload)
           | ReadFileResponse \<Rightarrow> setResMsg e t PString (unmarshalInto dec_string [] payload)
           | WriteFileResponse \<Rightarrow> (None, e\<lparr>ResMsg := Some \<lparr>Type = t, Payload = PString []\<rparr>\<rparr>)
           | ReadDirResponse \<Rightarrow>
               setResMsg e t PFileInfoSlice (unmarshalInto (dec_slice dec_FileInfo) [] payload)
           | MountSyscallResponse \<Rightarrow> (None, e\<lparr>ResMsg := Some \<lparr>Type = t, Payload = PString []\<rparr>\<rparr>)
           | UmountSyscallResponse \<Rightarrow> (None, e\<lparr>ResMsg := Some \<lparr>Type = t, Payload = PString []\<rparr>\<rparr>)
           | MountInfoResponse \<Rightarrow>
               setResMsg e t PMountInfoResp
                 (unmarshalInto dec_MountInfoRespPayload (MountInfoRespPayload []) payload)
           | MountInodeResponse \<Rightarrow>
               setResMsg e t PMountInodeResp
                 (unmarshalInto dec_MountInodeRespPayload (MountInodeRespPayload []) payload)
           | ChownSyscallResponse \<Rightarrow> (None, e\<lparr>ResMsg := Some \<lparr>Type = t, Payload = PString []\<rparr>\<rparr>)
           | SleepResponse \<Rightarrow> (None, e\<lparr>ResMsg := Some \<lparr>Type = t, Payload = PString []\<rparr>\<rparr>)
           | ErrorResponse \<Rightarrow> setResMsg e t PIOerror (unmarshalInto dec_IOerror (IOerror None) payload)
           | _ \<Rightarrow> (Some (ErrorText ''Received unsupported nsenterEvent message.''), e)))"

section \<open>The master's side: sending a request\<close>

text \<open>
  Modelled from the spec: the zombie reaper (its code is not among the sources) counts
  the NSX invocations started and ended and the requests to reap; each of its three
  methods adds one to its counter.
\<close>

record zombieReaper =
  started :: nat
  ended :: nat
  reapReqs :: nat

definition nsenterStarted :: "zombieReaper \<Rightarrow> zombieReaper" where
  "nsenterStarted r = r\<lparr>started := Suc (started r)\<rparr>"

definition nsenterEnded :: "zombieReaper \<Rightarrow> zombieReaper" where
  "nsenterEnded r = r\<lparr>ended := Suc (ended r)\<rparr>"

definition nsenterReapReq :: "zombieReaper \<Rightarrow> zombieReaper" where
  "nsenterReapReq r = r\<lparr>reapReqs := Suc (reapReqs r)\<rparr>"

text \<open>The JSON \<open>{pid, pid_first}\<close> that the second child reports.\<close>

record pid =
  pPid :: int
  PidFirstChild :: int

text \<open>What the master puts on the socket: the netlink packet, the credentials, the request.\<close>

datatype sent = SentConfig | SentCred Ucred | SentRequest request

text \<open>
  The result of every step of \<open>SendRequest\<close> and \<open>TerminateRequest\<close> that is made outside
  the program. The response read from the pipe depends on what was sent.
\<close>

record master_env =
  m_NewSockPair :: "error option"
  m_Setsockopt :: "error option"
  m_Start :: "error option"
  m_Copy :: "error option"
  m_Wait :: "error option"
  m_StatusSuccess :: bool
  m_DecodePid :: "error + pid"
  m_FindProcess :: "int \<Rightarrow> error option"
  m_Sendmsg :: "error option"
  m_Marshal :: "error option"
  m_Write :: "error option"
  m_Response :: "sent list \<Rightarrow> response_read"
  m_Shutdown :: "error option"
  m_Kill :: "error option"

type_synonym send_result = "error option \<times> NSenterEvent \<times> zombieReaper \<times> sent list"

text \<open>
  \<open>SendRequest\<close> from the credentials on, with the grand-child found and \<open>e.Process\<close> set.
  \<open>int32(e.Pid)\<close> reads the 32 bits as a signed number. \<open>*(e.ReqMsg)\<close> panics on nil.
\<close>

definition transferRequest ::
  "master_env \<Rightarrow> NSenterEvent \<Rightarrow> zombieReaper \<Rightarrow> sent list \<Rightarrow> send_result outcome"
where
  "transferRequest M e r snt =
     (let reqCred = \<lparr>uPid = sint (Pid e), uUid = 0, uGid = 0\<rparr> in
      case m_Sendmsg M of
        Some err \<Rightarrow> Returned (Some err, e, nsenterReapReq r, snt)
      | None \<Rightarrow>
          (let snt1 = snt @ [SentCred reqCred] in
           case ReqMsg e of
             None \<Rightarrow> Panic []
           | Some req \<Rightarrow>
               (case m_Marshal M of
                  Some err \<Rightarrow> Returned (Some err, e, nsenterEnded (nsenterReapReq r), snt1)
                | None \<Rightarrow>
                    (case m_Write M of
                       Some err \<Rightarrow> Returned (Some err, e, nsenterEnded (nsenterReapReq r), snt1)
                     | None \<Rightarrow>
                         (let snt2 = snt1 @ [SentRequest req] in
                          if async e then Returned (None, e, r, snt2)
                          else (case processResponse (m_Response M snt2) e of
                                  (Some ierr, e') \<Rightarrow>
                                    Returned (Some ierr, e', nsenterEnded (nsenterReapReq r), snt2)
                                | (None, e') \<Rightarrow> Returned (None, e', nsenterEnded r, snt2)))))))"

definition SendRequest :: "master_env \<Rightarrow> NSenterEvent \<Rightarrow> zombieReaper \<Rightarrow> send_result outcome" where
  "SendRequest M e r0 =
     (let r = nsenterStarted r0 in
      if m_NewSockPair M \<noteq> None then
        Returned (Some (ErrorText ''Error creating sysbox-fs nsenter pipe''), e, nsenterEnded r, [])
      else if m_Setsockopt M \<noteq> None then
        Returned (Some (ErrorText ''Error setting socket options on nsenter pipe''), e, r, [])
      else if m_Start M \<noteq> None then
        Returned (Some (ErrorText ''Error launching sysbox-fs first child process''), e,
                  nsenterEnded r, [])
      else if m_Copy M \<noteq> None then
        Returned (Some (ErrorText ''Error copying payload to pipe''), e,
                  nsenterEnded (nsenterReapReq r), [])
      else
        (case m_Wait M of
           Some err \<Rightarrow> Returned (Some err, e, nsenterEnded (nsenterReapReq r), [SentConfig])
         | None \<Rightarrow>
             if \<not> m_StatusSuccess M then
               Returned (Some (ErrorText ''Error waiting for sysbox-fs first child process''), e,
                         nsenterEnded (nsenterReapReq r), [SentConfig])
             else
               (case m_DecodePid M of
                  Inl err \<Rightarrow>
                    Returned (Some (ErrorText ''Error receiving first-child pid''), e,
                              nsenterEnded r, [SentConfig])
                | Inr pid \<Rightarrow>
                    (case m_FindProcess M (PidFirstChild pid) of
                       Some err \<Rightarrow> Returned (Some err, e, nsenterEnded r, [SentConfig])
                     | None \<Rightarrow>
                         (case m_FindProcess M (pPid pid) of
                            Some err \<Rightarrow> Returned (Some err, e, nsenterEnded r, [SentConfig])
                          | None \<Rightarrow>
                              transferRequest M (e\<lparr>Process := Some (pPid pid)\<rparr>) r [SentConfig])))))"

text \<open>
  \<open>TerminateRequest\<close>: the deferred calls run when the function returns, the last
  deferred first.
\<close>

definition TerminateRequest ::
  "master_env \<Rightarrow> NSenterEvent \<Rightarrow> zombieReaper \<Rightarrow> error option \<times> NSenterEvent \<times> zombieReaper"
where
  "TerminateRequest M e r =
     (case Process e of
        None \<Rightarrow> (None, e, nsenterEnded r)
      | Some proc \<Rightarrow>
          (case m_Shutdown M of
             Some err \<Rightarrow> (Some err, e, nsenterEnded (nsenterReapReq r))
           | None \<Rightarrow>
               (case m_Kill M of
                  Some err \<Rightarrow> (Some err, e, nsenterEnded (nsenterReapReq r))
                | None \<Rightarrow> (None, e\<lparr>Process := None\<rparr>, nsenterEnded r))))"

section \<open>The \<open>/proc/sys/net/unix\<close> handler\<close>

text \<open>
  The handler service's registry: \<open>FindHandler\<close> looks a handler up by name. A handler
  found there is an interface value; the two methods that \<open>ProcSysNetUnix\<close> delegates to
  and that are verified here are kept. A method runs on the log of the agent operations
  issued so far (type \<open>'l\<close>) and returns the log it leaves; \<open>Read\<close> also returns the
  request, whose buffer \<open>ReqData\<close> it fills.
\<close>

record 'l HandlerIface =
  iface_Read :: "IOnode \<Rightarrow> HandlerRequest \<Rightarrow> 'l \<Rightarrow> (int \<times> error option) \<times> HandlerRequest \<times> 'l"
  iface_ReadDirAll :: "IOnode \<Rightarrow> HandlerRequest \<Rightarrow> 'l \<Rightarrow> (FileInfo list \<times> error option) \<times> 'l"

type_synonym 'l HandlerService = "string \<Rightarrow> 'l HandlerIface option"

text \<open>
  \<open>ReadDirAll\<close>: a nil slice is \<open>[]\<close>; the loop appends the common handler's entries one
  by one, and only when that handler returned no error.
\<close>

definition ReadDirAll ::
  "'l HandlerService \<Rightarrow> IOnode \<Rightarrow> HandlerRequest \<Rightarrow> 'l \<Rightarrow> (FileInfo list \<times> error option) \<times> 'l"
where
  "ReadDirAll FindHandler n req l =
     (case FindHandler ''/proc/sys/'' of
        None \<Rightarrow> (([], Some (ErrorText ''No /proc/sys/ handler found'')), l)
      | Some procSysCommonHandler \<Rightarrow>
          (case iface_ReadDirAll procSysCommonHandler n req l of
             ((commonNeigh, err), l') \<Rightarrow>
               (let fileEntries = (if err = None then foldl (\<lambda>acc entry. acc @ [entry]) [] commonNeigh else [])
                in ((fileEntries, None), l'))))"


text \<open>
  Modelled from the spec: \<open>domain.EmuResource\<close>, \<open>{kind \<in> {file, dir}, mode, enabled,
  mutex}\<close>, and the handler's base with its \<open>EmuResourceMap\<close>, a Go map from names to
  \<open>EmuResource\<close> values (\<open>map[string]domain.EmuResource\<close>, as the source declares it). A
  \<open>sync.Mutex\<close> is locked or not.
\<close>

datatype EmuKind = FileEmuResource | DirEmuResource

datatype sync_Mutex = SyncMutex (locked: bool)

record EmuResource =
  Kind :: EmuKind
  Mode :: "32 word"
  Enabled :: bool
  Mutex :: sync_Mutex

record HandlerBase =
  hName :: string
  hPath :: string
  EmuResourceMap :: "string \<rightharpoonup> EmuResource"

definition ProcSysNetUnix_Handler :: HandlerBase where
  "ProcSysNetUnix_Handler =
     \<lparr>hName = ''ProcSysNetUnix'', hPath = ''/proc/sys/net/unix'',
      EmuResourceMap =
        [''max_dgram_qlen'' \<mapsto>
           \<lparr>Kind = FileEmuResource, Mode = 420, Enabled = True, Mutex = SyncMutex False\<rparr>]\<rparr>"

text \<open>
  The store. A variable whose address is taken lives on the heap; the heap is the list of
  the \<open>EmuResource\<close> variables allocated so far, and the address of a variable is its
  index. A \<open>*sync.Mutex\<close> is nil or the address of the \<open>Mutex\<close> field of such a variable.
  The values of a Go map are not addressable: \<open>resource, ok := h.EmuResourceMap[s]\<close> copies
  the map's value into the new variable \<open>resource\<close>, and \<open>&resource.Mutex\<close> is the address
  of the field of that variable.
\<close>

type_synonym heap = "EmuResource list"

datatype mutex_ptr = NilPtr | MutexOf nat

definition GetResourceMutex :: "HandlerBase \<Rightarrow> string \<Rightarrow> heap \<Rightarrow> mutex_ptr \<times> heap" where
  "GetResourceMutex h s hp =
     (case EmuResourceMap h s of
        None \<Rightarrow> (NilPtr, hp)
      | Some resource \<Rightarrow> (MutexOf (length hp), hp @ [resource]))"

text \<open>
  \<open>Lock\<close> through a pointer: it takes the mutex when it is free and otherwise waits.
\<close>

datatype lock_result = NilDereference | Blocked | Locked heap

definition Lock :: "mutex_ptr \<Rightarrow> heap \<Rightarrow> lock_result" where
  "Lock m hp =
     (case m of
        NilPtr \<Rightarrow> NilDereference
      | MutexOf a \<Rightarrow>
          if length hp \<le> a then NilDereference
          else if locked (Mutex (hp ! a)) then Blocked
          else Locked (hp[a := (hp ! a)\<lparr>Mutex := SyncMutex True\<rparr>]))"

section \<open>Concrete inputs\<close>

text \<open>
  A registry that holds only a common \<open>/proc/sys/\<close> handler whose methods fail with
  \<open>EIO\<close> and count their calls in the log.
\<close>

definition failingCommon :: "nat HandlerIface" where
  "failingCommon =
     \<lparr>iface_Read = (\<lambda>n req l. ((0, Some (Errno 5)), req, Suc l)),
      iface_ReadDirAll = (\<lambda>n req l. (([], Some (Errno 5)), Suc l))\<rparr>"

definition failingRegistry :: "nat HandlerService" where
  "failingRegistry name = (if name = ''/proc/sys/'' then Some failingCommon else None)"

definition unixNode :: IOnode where
  "unixNode = \<lparr>Name = ''unix'', Path = ''/proc/sys/net/unix''\<rparr>"

definition readReq :: "int \<Rightarrow> HandlerRequest" where
  "readReq off = \<lparr>ID = 1, ReqPid = 4242, ReqUid = 0, ReqGid = 0, Offset = off, ReqData = []\<rparr>"

text \<open>
  Modelled from the spec: \<open>ResolveProcSelf\<close> of the \<open>process\<close> package (not among the
  sources): a path that begins with \<open>/proc/self\<close> is resolved through
  \<open>/proc/<caller_pid>/\<dots>\<close>, any other path is left as it is. \<open>showNat\<close> writes the
  PID in decimal.
\<close>

function showNat :: "nat \<Rightarrow> string" where
  "showNat n =
     (if n < 10 then [''0123456789'' ! n]
      else showNat (n div 10) @ [''0123456789'' ! (n mod 10)])"
  by pat_completeness auto
termination
  by (relation "measure id") auto

definition specResolveProcSelf :: "32 word \<Rightarrow> string \<Rightarrow> string" where
  "specResolveProcSelf pid path =
     (if take 10 path = ''/proc/self'' then ''/proc/'' @ showNat (unat pid) @ drop 10 path
      else path)"

text \<open>
  A kernel for the examples: \<open>/nosuch\<close> does not exist, \<open>/proc/self/fd/9\<close> cannot be
  resolved, a mount of the source \<open>/bogus\<close> fails with \<open>ENOENT\<close>, an unmount of \<open>/busy\<close>
  with \<open>EBUSY\<close>, every file reads as \<open>512\<close> and a line feed, and everything else succeeds.
\<close>

definition testKernel :: kernel where
  "testKernel =
     \<lparr>k_Stat = (\<lambda>tr path. if path = ''/nosuch'' then Inl (Errno 2)
                 else Inr \<lparr>os_Name = path, os_Size = 4, os_Mode = 420, os_ModTime = 0,
                           os_IsDir = False, os_Sys = [(''Ino'', 7)]\<rparr>),
      k_OpenFile = (\<lambda>tr path fl mode. None),
      k_ReadFile = (\<lambda>tr path. Inr (''512'' @ [CHR 0x0A])),
      k_WriteFile = (\<lambda>tr path content mode. None),
      k_ReadDir = (\<lambda>tr path. Inr []),
      k_AdjustPersonality = (\<lambda>tr header. None),
      k_ResolveProcSelf = (\<lambda>tr pid path. if path = ''/proc/self/fd/9'' then Inl (Errno 2)
                 else Inr (specResolveProcSelf pid path)),
      k_Mount = (\<lambda>tr src tgt fs fl data. if src = ''/bogus'' then Some (Errno 2) else None),
      k_Unmount = (\<lambda>tr tgt fl. if tgt = ''/busy'' then Some (Errno 16) else None),
      k_Chown = (\<lambda>tr tgt uid gid. None),
      k_Getpid = (\<lambda>tr. 777),
      k_NewMountInfoParser = (\<lambda>tr pid. None),
      k_ExtractMountInfo = (\<lambda>tr pid. Inr []),
      k_FileInode = (\<lambda>tr mp. 2)\<rparr>"

text \<open>The agent's event once the credentials of caller 4242 are read.\<close>

definition agentEvent :: NSenterEvent where
  "agentEvent = \<lparr>Pid = 4242, ReqMsg = None, ResMsg = None, Process = None, async = False\<rparr>"

definition noHeader :: MountHeader where
  "noHeader = \<lparr>hUid = 0, hGid = 0, hRoot = ''/'', hCwd = ''/'', hCapabilities = []\<rparr>"

definition bindMount :: "string \<Rightarrow> string \<Rightarrow> 64 word \<Rightarrow> MountSyscallPayload" where
  "bindMount src tgt fl =
     \<lparr>Header = noHeader, Source = src, Target = tgt, FsType = ''bind'', Flags = fl, Data = []\<rparr>"

text \<open>
  A batch of four mounts: a bind mount (\<open>MS_BIND\<close> is 4096), a remount of a bind mount
  (4128), a mount that fails, and one more. \<open>failingBatchTrace\<close> is the calls up to the
  failure.
\<close>

definition failingBatch :: "MountSyscallPayload list" where
  "failingBatch =
     [bindMount ''/a'' ''/m1'' 4096, bindMount ''/b'' ''/m2'' 4128,
      bindMount ''/bogus'' ''/m3'' 4096, bindMount ''/c'' ''/m4'' 4096]"

definition failingBatchTrace :: trace where
  "failingBatchTrace =
     [SysResolveProcSelf 4242 ''/a'', SysResolveProcSelf 4242 ''/m1'',
      SysMount ''/a'' ''/m1'' ''bind'' 4096 [],
      SysResolveProcSelf 4242 ''/b'', SysResolveProcSelf 4242 ''/m2'',
      SysMount ''/b'' ''/m2'' ''bind'' 4128 [],
      SysResolveProcSelf 4242 ''/bogus'', SysResolveProcSelf 4242 ''/m3'',
      SysMount ''/bogus'' ''/m3'' ''bind'' 4096 []]"

section \<open>Notions and further inputs used to state the properties\<close>



definition mountCallsOf :: "32 word \<Rightarrow> MountSyscallPayload \<Rightarrow> MountSyscallPayload \<Rightarrow> trace" where
  "mountCallsOf pid q q' =
     [SysResolveProcSelf pid (Source q), SysResolveProcSelf pid (Target q),
      SysMount (Source q') (Target q') (FsType q) (Flags q) (Data q)]"




text \<open>
  More concrete inputs. The agent's pipe as the master fills it for caller 4242; a chown
  batch and an unmount batch whose first target cannot be resolved; a master for which
  every step succeeds, the grand-child being process 777; a reaper that has counted
  nothing; the master's event for a lookup on behalf of caller 4242.
\<close>

definition callerPipe :: "request \<Rightarrow> agent_pipe" where
  "callerPipe req =
     \<lparr>p_setsockopt = None,
      p_recvmsg = ControlMessages [ScmCredentials \<lparr>uPid = 4242, uUid = 0, uGid = 0\<rparr>],
      p_request = Decoded req, p_write = None\<rparr>"

definition unresolvableChown :: "ChownSyscallPayload list" where
  "unresolvableChown =
     [\<lparr>cTarget = ''/proc/self/fd/9'', TargetUid = 1000, TargetGid = 1000\<rparr>,
      \<lparr>cTarget = ''/m2'', TargetUid = 1000, TargetGid = 1000\<rparr>]"

definition unresolvableUmount :: "UmountSyscallPayload list" where
  "unresolvableUmount = [\<lparr>uTarget = ''/proc/self/fd/9'', uFlags = 0\<rparr>]"

definition okMaster :: "(sent list \<Rightarrow> response_read) \<Rightarrow> master_env" where
  "okMaster resp =
     \<lparr>m_NewSockPair = None, m_Setsockopt = None, m_Start = None, m_Copy = None, m_Wait = None,
      m_StatusSuccess = True, m_DecodePid = Inr \<lparr>pPid = 777, PidFirstChild = 776\<rparr>,
      m_FindProcess = (\<lambda>p. None), m_Sendmsg = None, m_Marshal = None, m_Write = None,
      m_Response = resp, m_Shutdown = None, m_Kill = None\<rparr>"

definition newReaper :: zombieReaper where
  "newReaper = \<lparr>started = 0, ended = 0, reapReqs = 0\<rparr>"

definition lookupEvent :: NSenterEvent where
  "lookupEvent =
     \<lparr>Pid = 4242, ReqMsg = Some (LookupReq \<lparr>Entry = ''/proc/sys/net/unix/max_dgram_qlen''\<rparr>),
      ResMsg = None, Process = None, async = False\<rparr>"

text \<open>
  \<open>resolvedOf\<close>: the path \<open>s\<close> is what \<open>ResolveProcSelf\<close>, called for the process \<open>pid\<close>,
  answered for one of the submitted paths. \<open>mountCallOk\<close> and \<open>umountCallOk\<close> hold of the
  calls that a mount batch and an unmount or chown batch may make: resolutions for the
  caller, and syscalls on resolved paths only.
\<close>

definition resolvedOf :: "kernel \<Rightarrow> 32 word \<Rightarrow> string list \<Rightarrow> string \<Rightarrow> bool" where
  "resolvedOf K pid paths s = (\<exists>h a. a \<in> set paths \<and> k_ResolveProcSelf K h pid a = Inr s)"

definition mountCallOk :: "kernel \<Rightarrow> 32 word \<Rightarrow> MountSyscallPayload list \<Rightarrow> syscall \<Rightarrow> bool" where
  "mountCallOk K pid payload c =
     (case c of
        SysMount s t fs fl d \<Rightarrow>
          resolvedOf K pid (map Source payload) s \<and> resolvedOf K pid (map Target payload) t
      | SysUnmount t fl \<Rightarrow> resolvedOf K pid (map Target payload) t
      | SysResolveProcSelf p a \<Rightarrow> p = pid
      | SysAdjustPersonality h \<Rightarrow> True
      | _ \<Rightarrow> False)"

definition umountCallOk :: "kernel \<Rightarrow> 32 word \<Rightarrow> string list \<Rightarrow> syscall \<Rightarrow> bool" where
  "umountCallOk K pid paths c =
     (case c of
        SysUnmount t fl \<Rightarrow> resolvedOf K pid paths t
      | SysChown t uid gid \<Rightarrow> resolvedOf K pid paths t
      | SysResolveProcSelf p a \<Rightarrow> p = pid
      | _ \<Rightarrow> False)"

text \<open>
  \<open>resolvesOnlyFor\<close>: every \<open>ResolveProcSelf\<close> among the calls is made for the process
  \<open>pid\<close>. \<open>keepsCaller\<close>: an operation leaves the event's \<open>Pid\<close> as it is and resolves
  paths for that process only.
\<close>

definition resolvesOnlyFor :: "32 word \<Rightarrow> trace \<Rightarrow> bool" where
  "resolvesOnlyFor pid new = (\<forall>c \<in> set new. case c of SysResolveProcSelf q a \<Rightarrow> q = pid | _ \<Rightarrow> True)"

definition keepsCaller :: "NSenterEvent \<Rightarrow> trace \<Rightarrow> NSenterEvent \<times> trace \<Rightarrow> bool" where
  "keepsCaller e tr r = (Pid (fst r) = Pid e \<and> (\<exists>new. snd r = tr @ new \<and> resolvesOnlyFor (Pid e) new))"

text \<open>
  A request as the wire carries it: \<open>json.Marshal\<close> writes every string of the payload
  with the bytes that are not valid UTF-8 replaced.
\<close>

definition wireHeader :: "MountHeader \<Rightarrow> MountHeader" where
  "wireHeader h = h\<lparr>hRoot := coerceUTF8 (hRoot h), hCwd := coerceUTF8 (hCwd h)\<rparr>"

definition wireMount :: "MountSyscallPayload \<Rightarrow> MountSyscallPayload" where
  "wireMount q =
     q\<lparr>Header := wireHeader (Header q), Source := coerceUTF8 (Source q),
       Target := coerceUTF8 (Target q), FsType := coerceUTF8 (FsType q),
       Data := coerceUTF8 (Data q)\<rparr>"

definition wireRequest :: "request \<Rightarrow> request" where
  "wireRequest req =
     (case req of
        LookupReq p \<Rightarrow> LookupReq (p\<lparr>Entry := coerceUTF8 (Entry p)\<rparr>)
      | OpenFileReq p \<Rightarrow>
          OpenFileReq (p\<lparr>oFile := coerceUTF8 (oFile p), oFlags := coerceUTF8 (oFlags p),
                         oMode := coerceUTF8 (oMode p)\<rparr>)
      | ReadFileReq p \<Rightarrow> ReadFileReq (p\<lparr>rFile := coerceUTF8 (rFile p)\<rparr>)
      | WriteFileReq p \<Rightarrow>
          WriteFileReq (p\<lparr>wFile := coerceUTF8 (wFile p), wContent := coerceUTF8 (wContent p)\<rparr>)
      | ReadDirReq p \<Rightarrow> ReadDirReq (p\<lparr>Dir := coerceUTF8 (Dir p)\<rparr>)
      | MountSyscallReq ps \<Rightarrow> MountSyscallReq (map wireMount ps)
      | UmountSyscallReq ps \<Rightarrow>
          UmountSyscallReq (map (\<lambda>q. q\<lparr>uTarget := coerceUTF8 (uTarget q)\<rparr>) ps)
      | MountInfoReq \<Rightarrow> MountInfoReq
      | MountInodeReq p \<Rightarrow> MountInodeReq (p\<lparr>Mountpoints := map coerceUTF8 (Mountpoints p)\<rparr>)
      | ChownSyscallReq ps \<Rightarrow>
          ChownSyscallReq (map (\<lambda>q. q\<lparr>cTarget := coerceUTF8 (cTarget q)\<rparr>) ps)
      | SleepReq p \<Rightarrow> SleepReq (p\<lparr>Ival := coerceUTF8 (Ival p)\<rparr>)
      | UnsupportedReq t \<Rightarrow>
          UnsupportedReq (case t of OtherMsgType x \<Rightarrow> OtherMsgType (coerceUTF8 x) | _ \<Rightarrow> t))"

text \<open>
  The socket pair between processes of one PID namespace: the agent finds on its end the
  credentials that the master put on the other end, as sent, and the request as the wire
  carries it. \<open>agentReply\<close> is what the master then reads: the message \<open>Init\<close> wrote, or
  the end of the stream when the agent wrote nothing. \<open>NSX\<close> is one invocation for a
  master whose every step succeeds.
\<close>

definition pipeOf :: "sent list \<Rightarrow> agent_pipe" where
  "pipeOf snt =
     \<lparr>p_setsockopt = None,
      p_recvmsg = ControlMessages (concat (map (\<lambda>s. case s of SentCred c \<Rightarrow> [ScmCredentials c] | _ \<Rightarrow> []) snt)),
      p_request = (case concat (map (\<lambda>s. case s of SentRequest req \<Rightarrow> [req] | _ \<Rightarrow> []) snt) of
                     [req] \<Rightarrow> Decoded (wireRequest req)
                   | _ \<Rightarrow> EnvelopeError EOF),
      p_write = None\<rparr>"



text \<open>
  The event \<open>Init\<close> starts with, and what \<open>SendRequest\<close> puts on the socket for
  \<open>lookupEvent\<close>.
\<close>

definition initEvent :: NSenterEvent where
  "initEvent = \<lparr>Pid = 0, ReqMsg = None, ResMsg = None, Process = None, async = False\<rparr>"

definition sentForLookup :: "sent list" where
  "sentForLookup =
     [SentConfig, SentCred \<lparr>uPid = 4242, uUid = 0, uGid = 0\<rparr>,
      SentRequest (LookupReq \<lparr>Entry = ''/proc/sys/net/unix/max_dgram_qlen''\<rparr>)]"
















definition qlenResource :: EmuResource where
  "qlenResource = \<lparr>Kind = FileEmuResource, Mode = 420, Enabled = True, Mutex = SyncMutex False\<rparr>"







text \<open>
  What the agent of caller 4242 finds on the socket when it is in another PID namespace
  than the master, in which the caller is process 17: the kernel delivers the credentials
  with the PID as the receiver sees it.
\<close>

definition translatedPipe :: agent_pipe where
  "translatedPipe =
     \<lparr>p_setsockopt = None,
      p_recvmsg = ControlMessages [ScmCredentials \<lparr>uPid = 17, uUid = 0, uGid = 0\<rparr>],
      p_request = Decoded (LookupReq \<lparr>Entry = ''/proc/sys/net/unix/max_dgram_qlen''\<rparr>),
      p_write = None\<rparr>"


section \<open>Properties\<close>

lemma foldl_append_each: "foldl (\<lambda>acc entry. acc @ [entry]) acc xs = acc @ xs"
  by (induction xs arbitrary: acc) simp_all

text \<open>
  Claim C10. \<open>ReadDirAll\<close> of the \<open>/proc/sys/net/unix\<close> handler never passes on an error of
  the common \<open>/proc/sys/\<close> handler: when that handler's \<open>ReadDirAll\<close> fails, the result is
  the nil entry list with a nil error; when it succeeds, its entries with a nil error; and
  the result carries an error exactly when the \<open>/proc/sys/\<close> handler is not registered.
\<close>

theorem ReadDirAll_discards_common_error:
  "(\<forall>h entries e l'. FindHandler ''/proc/sys/'' = Some h \<and>
        iface_ReadDirAll h n req l = ((entries, Some e), l') \<longrightarrow>
        ReadDirAll FindHandler n req l = (([], None), l'))
   \<and> (\<forall>h entries l'. FindHandler ''/proc/sys/'' = Some h \<and>
        iface_ReadDirAll h n req l = ((entries, None), l') \<longrightarrow>
        ReadDirAll FindHandler n req l = ((entries, None), l'))
   \<and> (snd (fst (ReadDirAll FindHandler n req l)) \<noteq> None \<longleftrightarrow> FindHandler ''/proc/sys/'' = None)"
  by (auto simp: ReadDirAll_def foldl_append_each split: option.splits prod.splits)

theorem ReadDirAll_discards_common_error_witness:
  "failingRegistry ''/proc/sys/'' = Some failingCommon
   \<and> iface_ReadDirAll failingCommon unixNode (readReq 0) 0 = (([], Some (Errno 5)), 1)
   \<and> ReadDirAll failingRegistry unixNode (readReq 0) 0 = (([], None), 1)"
proof -
  have found: "failingRegistry ''/proc/sys/'' = Some failingCommon"
    by (simp add: failingRegistry_def)
  have fails: "iface_ReadDirAll failingCommon unixNode (readReq 0) 0 = (([], Some (Errno 5)), 1)"
    by (simp add: failingCommon_def)
  from ReadDirAll_discards_common_error [of failingRegistry unixNode "readReq 0" 0] found fails
  have "ReadDirAll failingRegistry unixNode (readReq 0) 0 = (([], None), 1)"
    by blast
  with found fails show ?thesis by simp
qed

subsection \<open>The mount loop\<close>


lemma mountLoop_acc:
  "mountLoop K pid xs acc tr = (m, err, tr') \<Longrightarrow>
   \<exists>m0. m = acc @ m0 \<and> mountLoop K pid xs [] tr = (m0, err, tr')"
proof (induction xs arbitrary: acc tr m err tr')
  case Nil
  then show ?case by simp
next
  case (Cons p xs)
  show ?case
  proof (cases "k_ResolveProcSelf K tr pid (Source p)")
    case (Inl a)
    with Cons.prems show ?thesis by auto
  next
    case src: (Inr s)
    show ?thesis
    proof (cases "k_ResolveProcSelf K (tr @ [SysResolveProcSelf pid (Source p)]) pid (Target p)")
      case (Inl a)
      with src Cons.prems show ?thesis by (auto simp: Let_def)
    next
      case tgt: (Inr t)
      let ?tr2 = "tr @ [SysResolveProcSelf pid (Source p), SysResolveProcSelf pid (Target p)]"
      show ?thesis
      proof (cases "k_Mount K ?tr2 s t (FsType p) (Flags p) (Data p)")
        case (Some a)
        with src tgt Cons.prems show ?thesis by (auto simp: Let_def split: option.splits)
      next
        case None
        let ?p' = "p\<lparr>Source := s, Target := t\<rparr>"
        let ?tr3 = "?tr2 @ [SysMount s t (FsType p) (Flags p) (Data p)]"
        from None src tgt Cons.prems
        have run: "mountLoop K pid xs (acc @ [?p']) ?tr3 = (m, err, tr')"
          by (simp add: Let_def)
        from Cons.IH [OF run] obtain m1 where
          m1: "m = (acc @ [?p']) @ m1" "mountLoop K pid xs [] ?tr3 = (m1, err, tr')"
          by blast
        have "mountLoop K pid xs ([] @ [?p']) ?tr3 = (?p' # m1, err, tr')"
        proof -
          obtain a b c where abc: "mountLoop K pid xs ([] @ [?p']) ?tr3 = (a, b, c)"
            by (cases "mountLoop K pid xs ([] @ [?p']) ?tr3") auto
          from Cons.IH [OF abc] m1(2) abc show ?thesis by auto
        qed
        with None src tgt m1 show ?thesis by (simp add: Let_def)
      qed
    qed
  qed
qed

lemma mountRollback_eq:
  "mountRollback ps tr =
     tr @ map (\<lambda>q. SysUnmount (Target q) 0) (filter (\<lambda>q. Flags q AND MS_REMOUNT \<noteq> MS_REMOUNT) ps)"
  by (induction ps arbitrary: tr) simp_all

lemma mountLoop_success_shape:
  "mountLoop K pid xs [] tr = (m, None, tr') \<Longrightarrow>
   length m = length xs \<and> map Flags m = map Flags xs \<and>
   tr' = tr @ concat (map2 (mountCallsOf pid) xs m)"
proof (induction xs arbitrary: tr m)
  case Nil
  then show ?case by simp
next
  case (Cons p xs)
  from Cons.prems obtain s where src: "k_ResolveProcSelf K tr pid (Source p) = Inr s"
    by (cases "k_ResolveProcSelf K tr pid (Source p)") auto
  let ?tr1 = "tr @ [SysResolveProcSelf pid (Source p)]"
  from Cons.prems src obtain t where tgt: "k_ResolveProcSelf K ?tr1 pid (Target p) = Inr t"
    by (cases "k_ResolveProcSelf K ?tr1 pid (Target p)") (auto simp: Let_def)
  let ?tr2 = "?tr1 @ [SysResolveProcSelf pid (Target p)]"
  from Cons.prems src tgt have mnt: "k_Mount K ?tr2 s t (FsType p) (Flags p) (Data p) = None"
    by (cases "k_Mount K ?tr2 s t (FsType p) (Flags p) (Data p)") (auto simp: Let_def)
  let ?p' = "p\<lparr>Source := s, Target := t\<rparr>"
  let ?tr3 = "?tr2 @ [SysMount s t (FsType p) (Flags p) (Data p)]"
  from Cons.prems src tgt mnt
  have run: "mountLoop K pid xs [?p'] ?tr3 = (m, None, tr')"
    by (simp add: Let_def)
  from mountLoop_acc [OF run] obtain m0 where
    m0: "m = [?p'] @ m0" "mountLoop K pid xs [] ?tr3 = (m0, None, tr')"
    by blast
  from Cons.IH [OF m0(2)] m0(1) show ?case
    by (simp add: mountCallsOf_def)
qed


lemma testKernel_simps [simp]:
  "k_ResolveProcSelf testKernel tr pid path =
     (if path = ''/proc/self/fd/9'' then Inl (Errno 2) else Inr (specResolveProcSelf pid path))"
  "k_Mount testKernel tr src tgt fs fl d = (if src = ''/bogus'' then Some (Errno 2) else None)"
  "k_Unmount testKernel tr tgt ufl = (if tgt = ''/busy'' then Some (Errno 16) else None)"
  "k_Chown testKernel tr tgt uid gid = None"
  "k_AdjustPersonality testKernel tr h = None"
  by (simp_all add: testKernel_def)




subsection \<open>The unmount loop\<close>







subsection \<open>The reaper's counters\<close>

lemma SendRequest_balanced_otherwise:
  assumes "m_Setsockopt M = None" and "m_Sendmsg M = None" and "\<not> async e"
    and "SendRequest M e r0 = Returned (err, e', r', snt)"
  shows "started r' = Suc (started r0) \<and> ended r' = Suc (ended r0)"
  using assms
  by (auto simp: SendRequest_def transferRequest_def Let_def nsenterStarted_def nsenterEnded_def
      nsenterReapReq_def split: if_splits option.splits sum.splits prod.splits)

lemma TerminateRequest_ends_once:
  "TerminateRequest M e r = (err, e', r') \<Longrightarrow> started r' = started r \<and> ended r' = Suc (ended r)"
  by (auto simp: TerminateRequest_def nsenterEnded_def nsenterReapReq_def split: option.splits)

text \<open>
  Claim C3 holds on the paths of the two lemmas above and fails on two others: when
  setting \<open>SO_PASSCRED\<close> on the socket fails and when sending the credentials fails,
  \<open>SendRequest\<close> returns after \<open>nsenterStarted\<close> without a call of \<open>nsenterEnded\<close>.
\<close>

theorem SendRequest_unbalanced_on_socket_errors:
  "SendRequest ((okMaster resp)\<lparr>m_Setsockopt := Some (Errno 22)\<rparr>) lookupEvent newReaper =
     Returned (Some (ErrorText ''Error setting socket options on nsenter pipe''), lookupEvent,
               \<lparr>started = 1, ended = 0, reapReqs = 0\<rparr>, [])
   \<and> SendRequest ((okMaster resp)\<lparr>m_Sendmsg := Some (Errno 32)\<rparr>) lookupEvent newReaper =
     Returned (Some (Errno 32), lookupEvent\<lparr>Process := Some 777\<rparr>,
               \<lparr>started = 1, ended = 0, reapReqs = 1\<rparr>, [SentConfig])"
  by (simp add: SendRequest_def transferRequest_def okMaster_def lookupEvent_def newReaper_def
      nsenterStarted_def nsenterEnded_def nsenterReapReq_def)

subsection \<open>Failures of a chown or unmount batch\<close>

text \<open>
  Claim C4 fails on the code. When the target of a chown cannot be resolved, the loop is
  left by \<open>break\<close> and the agent answers \<open>ChownSyscallResponse\<close>, the success message,
  with the chown of that target and of the targets after it not made. When the target of
  an unmount cannot be resolved, no response is set at all and \<open>Init\<close> panics on the nil
  \<open>ResMsg\<close>.
\<close>

theorem chown_resolution_failure_answers_success:
  "processChownSyscallRequest testKernel unresolvableChown agentEvent [] =
     (agentEvent\<lparr>ResMsg := Some \<lparr>Type = ChownSyscallResponse, Payload = PString []\<rparr>\<rparr>,
      [SysResolveProcSelf 4242 ''/proc/self/fd/9''])
   \<and> Init testKernel ''3'' (callerPipe (ChownSyscallReq unresolvableChown)) [] =
       Returned (None, Some \<lparr>wType = ChownSyscallResponse, wPayload = JStr []\<rparr>,
                 agentEvent\<lparr>ReqMsg := Some (ChownSyscallReq unresolvableChown),
                            ResMsg := Some \<lparr>Type = ChownSyscallResponse, Payload = PString []\<rparr>\<rparr>,
                 [SysResolveProcSelf 4242 ''/proc/self/fd/9''])
   \<and> Init testKernel ''3'' (callerPipe (UmountSyscallReq unresolvableUmount)) [] =
       Panic [SysResolveProcSelf 4242 ''/proc/self/fd/9'']"
  by (simp add: processChownSyscallRequest_def unresolvableChown_def agentEvent_def Init_def
      callerPipe_def processRequest_def getProcCreds_def returnNil_def Atoi_def digit_of_def
      Marshal_def unresolvableUmount_def processUmountSyscallRequest_def)

subsection \<open>Path resolution\<close>

lemma resolvedOf_mono: "resolvedOf K pid paths s \<Longrightarrow> set paths \<subseteq> set paths' \<Longrightarrow> resolvedOf K pid paths' s"
  by (auto simp: resolvedOf_def)

lemma resolvedOf_hd: "k_ResolveProcSelf K h pid a = Inr s \<Longrightarrow> resolvedOf K pid (a # paths) s"
  by (auto simp: resolvedOf_def)

lemma mountCallOk_Cons: "mountCallOk K pid xs c \<Longrightarrow> mountCallOk K pid (p # xs) c"
  by (auto simp: mountCallOk_def intro: resolvedOf_mono split: syscall.splits)

lemma mountLoop_resolved:
  "mountLoop K pid xs acc tr = (m, err, tr') \<Longrightarrow>
   \<exists>new m0. tr' = tr @ new \<and> m = acc @ m0
     \<and> (\<forall>q \<in> set m0. resolvedOf K pid (map Target xs) (Target q))
     \<and> (\<forall>c \<in> set new. mountCallOk K pid xs c)"
proof (induction xs arbitrary: acc tr)
  case Nil
  then show ?case by simp
next
  case (Cons p xs)
  let ?c1 = "SysResolveProcSelf pid (Source p)"
  let ?c2 = "SysResolveProcSelf pid (Target p)"
  have ok1: "mountCallOk K pid (p # xs) ?c1" and ok2: "mountCallOk K pid (p # xs) ?c2"
    by (simp_all add: mountCallOk_def)
  show ?case
  proof (cases "k_ResolveProcSelf K tr pid (Source p)")
    case (Inl a)
    with Cons.prems have "tr' = tr @ [?c1]" "m = acc @ []" by auto
    with ok1 show ?thesis by auto
  next
    case src: (Inr s)
    show ?thesis
    proof (cases "k_ResolveProcSelf K (tr @ [?c1]) pid (Target p)")
      case (Inl a)
      with src Cons.prems have "tr' = tr @ [?c1, ?c2]" "m = acc @ []" by (auto simp: Let_def)
      with ok1 ok2 show ?thesis by auto
    next
      case tgt: (Inr t)
      let ?c3 = "SysMount s t (FsType p) (Flags p) (Data p)"
      have ok3: "mountCallOk K pid (p # xs) ?c3"
        using src tgt by (auto simp: mountCallOk_def intro: resolvedOf_hd)
      show ?thesis
      proof (cases "k_Mount K (tr @ [?c1, ?c2]) s t (FsType p) (Flags p) (Data p)")
        case (Some a)
        with src tgt Cons.prems have "tr' = tr @ [?c1, ?c2, ?c3]" "m = acc @ []"
          by (auto simp: Let_def split: option.splits)
        with ok1 ok2 ok3 show ?thesis by auto
      next
        case None
        let ?p' = "p\<lparr>Source := s, Target := t\<rparr>"
        from None src tgt Cons.prems
        have run: "mountLoop K pid xs (acc @ [?p']) (tr @ [?c1, ?c2, ?c3]) = (m, err, tr')"
          by (simp add: Let_def)
        from Cons.IH [OF run] obtain new m0 where
          n: "tr' = (tr @ [?c1, ?c2, ?c3]) @ new" "m = (acc @ [?p']) @ m0"
             "\<forall>q \<in> set m0. resolvedOf K pid (map Target xs) (Target q)"
             "\<forall>c \<in> set new. mountCallOk K pid xs c"
          by blast
        have a: "tr' = tr @ ([?c1, ?c2, ?c3] @ new)" "m = acc @ (?p' # m0)"
          using n(1,2) by simp_all
        have b: "\<forall>q \<in> set (?p' # m0). resolvedOf K pid (map Target (p # xs)) (Target q)"
        proof
          fix q assume "q \<in> set (?p' # m0)"
          then consider "q = ?p'" | "q \<in> set m0" by auto
          then show "resolvedOf K pid (map Target (p # xs)) (Target q)"
          proof cases
            case 1
            with tgt show ?thesis by (auto intro: resolvedOf_hd)
          next
            case 2
            with n(3) have "resolvedOf K pid (map Target xs) (Target q)" by blast
            then show ?thesis by (rule resolvedOf_mono) auto
          qed
        qed
        have c: "\<forall>c \<in> set ([?c1, ?c2, ?c3] @ new). mountCallOk K pid (p # xs) c"
          using n(4) ok1 ok2 ok3 by (auto intro: mountCallOk_Cons)
        from a b c show ?thesis by blast
      qed
    qed
  qed
qed

lemma mountBatch_resolved:
  "\<exists>new. snd (mountBatch K payload e tr) = tr @ new \<and> (\<forall>c \<in> set new. mountCallOk K (Pid e) payload c)"
proof -
  obtain m err tr' where run: "mountLoop K (Pid e) payload [] tr = (m, err, tr')"
    by (cases "mountLoop K (Pid e) payload [] tr") auto
  from mountLoop_resolved [OF run] obtain new where
    n: "tr' = tr @ new" "\<forall>q \<in> set m. resolvedOf K (Pid e) (map Target payload) (Target q)"
       "\<forall>c \<in> set new. mountCallOk K (Pid e) payload c"
    by auto
  show ?thesis
  proof (cases err)
    case None
    with run n show ?thesis by (auto simp: mountBatch_def)
  next
    case (Some a)
    let ?rb = "map (\<lambda>q. SysUnmount (Target q) 0) (filter (\<lambda>q. Flags q AND MS_REMOUNT \<noteq> MS_REMOUNT) (rev m))"
    have "snd (mountBatch K payload e tr) = tr @ (new @ ?rb)"
      using Some run n(1) by (simp add: mountBatch_def mountRollback_eq)
    moreover have "\<forall>c \<in> set (new @ ?rb). mountCallOk K (Pid e) payload c"
      using n(2,3) by (auto simp: mountCallOk_def)
    ultimately show ?thesis by blast
  qed
qed

lemma processMount_resolved:
  "processMountSyscallRequest K payload e tr = Returned (e', tr') \<Longrightarrow>
   \<exists>new. tr' = tr @ new \<and> (\<forall>c \<in> set new. mountCallOk K (Pid e) payload c)"
proof -
  assume r: "processMountSyscallRequest K payload e tr = Returned (e', tr')"
  then obtain p0 rest where ne: "payload = p0 # rest"
    by (cases payload) (auto simp: processMountSyscallRequest_def)
  let ?adj = "SysAdjustPersonality (Header p0)"
  have adj: "mountCallOk K (Pid e) payload ?adj" by (simp add: mountCallOk_def)
  consider (fail) "FsType p0 = ''overlay''" "k_AdjustPersonality K tr (Header p0) \<noteq> None"
    | (adjusted) "FsType p0 = ''overlay''" "k_AdjustPersonality K tr (Header p0) = None"
    | (plain) "FsType p0 \<noteq> ''overlay''" by blast
  then show ?thesis
  proof cases
    case fail
    with r ne have "tr' = tr @ [?adj]"
      by (auto simp: processMountSyscallRequest_def Let_def)
    with adj show ?thesis by auto
  next
    case adjusted
    with r ne have t: "tr' = snd (mountBatch K payload e (tr @ [?adj]))"
      by (auto simp: processMountSyscallRequest_def Let_def)
    from mountBatch_resolved [of K payload e "tr @ [?adj]"] obtain new where
      n: "snd (mountBatch K payload e (tr @ [?adj])) = (tr @ [?adj]) @ new"
         "\<forall>c \<in> set new. mountCallOk K (Pid e) payload c" by blast
    have "tr' = tr @ (?adj # new)" using t n(1) by simp
    moreover have "\<forall>c \<in> set (?adj # new). mountCallOk K (Pid e) payload c" using n(2) adj by simp
    ultimately show ?thesis by blast
  next
    case plain
    with r ne have t: "tr' = snd (mountBatch K payload e tr)"
      by (auto simp: processMountSyscallRequest_def Let_def)
    with mountBatch_resolved [of K payload e tr] show ?thesis by simp
  qed
qed

lemma umountCallOk_Cons: "umountCallOk K pid xs c \<Longrightarrow> umountCallOk K pid (p # xs) c"
  by (auto simp: umountCallOk_def intro: resolvedOf_mono split: syscall.splits)

lemma umountLoop_resolved:
  "umountLoop K pid xs e tr = (r, e', tr') \<Longrightarrow>
   \<exists>new. tr' = tr @ new \<and> (\<forall>c \<in> set new. umountCallOk K pid (map uTarget xs) c)"
proof (induction xs arbitrary: tr)
  case Nil
  then show ?case by simp
next
  case (Cons p xs)
  let ?c1 = "SysResolveProcSelf pid (uTarget p)"
  have ok1: "umountCallOk K pid (map uTarget (p # xs)) ?c1" by (simp add: umountCallOk_def)
  show ?case
  proof (cases "k_ResolveProcSelf K tr pid (uTarget p)")
    case (Inl a)
    with Cons.prems have "tr' = tr @ [?c1]" by auto
    with ok1 show ?thesis by auto
  next
    case tgt: (Inr t)
    let ?c2 = "SysUnmount t (sint (uFlags p))"
    have ok2: "umountCallOk K pid (map uTarget (p # xs)) ?c2"
      using tgt by (auto simp: umountCallOk_def intro: resolvedOf_hd)
    show ?thesis
    proof (cases "k_Unmount K (tr @ [?c1]) t (sint (uFlags p))")
      case (Some a)
      with tgt Cons.prems have "tr' = tr @ [?c1, ?c2]" by (auto simp: Let_def)
      with ok1 ok2 show ?thesis by auto
    next
      case None
      from Cons.prems tgt None have run: "umountLoop K pid xs e (tr @ [?c1, ?c2]) = (r, e', tr')"
        by (simp add: Let_def)
      from Cons.IH [OF run] obtain new where
        n: "tr' = (tr @ [?c1, ?c2]) @ new" "\<forall>c \<in> set new. umountCallOk K pid (map uTarget xs) c"
        by blast
      have "tr' = tr @ ([?c1, ?c2] @ new)" using n(1) by simp
      moreover have "\<forall>c \<in> set ([?c1, ?c2] @ new). umountCallOk K pid (map uTarget (p # xs)) c"
        using n(2) ok1 ok2 by (auto dest: umountCallOk_Cons)
      ultimately show ?thesis by blast
    qed
  qed
qed

lemma chownLoop_resolved:
  "chownLoop K pid xs e tr = (r, e', tr') \<Longrightarrow>
   \<exists>new. tr' = tr @ new \<and> (\<forall>c \<in> set new. umountCallOk K pid (map cTarget xs) c)"
proof (induction xs arbitrary: tr)
  case Nil
  then show ?case by simp
next
  case (Cons p xs)
  let ?c1 = "SysResolveProcSelf pid (cTarget p)"
  have ok1: "umountCallOk K pid (map cTarget (p # xs)) ?c1" by (simp add: umountCallOk_def)
  show ?case
  proof (cases "k_ResolveProcSelf K tr pid (cTarget p)")
    case (Inl a)
    with Cons.prems have "tr' = tr @ [?c1]" by auto
    with ok1 show ?thesis by auto
  next
    case tgt: (Inr t)
    let ?c2 = "SysChown t (TargetUid p) (TargetGid p)"
    have ok2: "umountCallOk K pid (map cTarget (p # xs)) ?c2"
      using tgt by (auto simp: umountCallOk_def intro: resolvedOf_hd)
    show ?thesis
    proof (cases "k_Chown K (tr @ [?c1]) t (TargetUid p) (TargetGid p)")
      case (Some a)
      with tgt Cons.prems have "tr' = tr @ [?c1, ?c2]" by (auto simp: Let_def)
      with ok1 ok2 show ?thesis by auto
    next
      case None
      from Cons.prems tgt None have run: "chownLoop K pid xs e (tr @ [?c1, ?c2]) = (r, e', tr')"
        by (simp add: Let_def)
      from Cons.IH [OF run] obtain new where
        n: "tr' = (tr @ [?c1, ?c2]) @ new" "\<forall>c \<in> set new. umountCallOk K pid (map cTarget xs) c"
        by blast
      have "tr' = tr @ ([?c1, ?c2] @ new)" using n(1) by simp
      moreover have "\<forall>c \<in> set ([?c1, ?c2] @ new). umountCallOk K pid (map cTarget (p # xs)) c"
        using n(2) ok1 ok2 by (auto dest: umountCallOk_Cons)
      ultimately show ?thesis by blast
    qed
  qed
qed

lemma processUmount_resolved:
  "\<exists>new. snd (processUmountSyscallRequest K payload e tr) = tr @ new
     \<and> (\<forall>c \<in> set new. umountCallOk K (Pid e) (map uTarget payload) c)"
proof -
  obtain r e' tr' where run: "umountLoop K (Pid e) payload e tr = (r, e', tr')"
    by (cases "umountLoop K (Pid e) payload e tr") auto
  have "snd (processUmountSyscallRequest K payload e tr) = tr'"
    using run by (cases r) (simp_all add: processUmountSyscallRequest_def)
  with umountLoop_resolved [OF run] show ?thesis by simp
qed

lemma processChown_resolved:
  "\<exists>new. snd (processChownSyscallRequest K payload e tr) = tr @ new
     \<and> (\<forall>c \<in> set new. umountCallOk K (Pid e) (map cTarget payload) c)"
proof -
  obtain r e' tr' where run: "chownLoop K (Pid e) payload e tr = (r, e', tr')"
    by (cases "chownLoop K (Pid e) payload e tr") auto
  have "snd (processChownSyscallRequest K payload e tr) = tr'"
    using run by (cases r) (simp_all add: processChownSyscallRequest_def)
  with chownLoop_resolved [OF run] show ?thesis by simp
qed

lemma failingBatch_run:
  "processMountSyscallRequest testKernel failingBatch agentEvent [] =
     Returned (agentEvent\<lparr>ResMsg := Some (errorResponse (Errno 2))\<rparr>,
               failingBatchTrace @ [SysUnmount ''/m1'' 0])"
  by (simp add: processMountSyscallRequest_def mountBatch_def failingBatch_def bindMount_def
      agentEvent_def specResolveProcSelf_def failingBatchTrace_def MS_REMOUNT_def)

text \<open>
  Claim C5, as stated, fails: a lookup of \<open>/proc/self/status\<close> on behalf of caller 4242
  calls \<open>stat\<close> on that very path, not on \<open>/proc/4242/status\<close>.
\<close>

theorem lookup_proc_self_not_resolved_counterexample:
  "snd (processLookupRequest testKernel \<lparr>Entry = ''/proc/self/status''\<rparr> agentEvent []) =
     [SysStat ''/proc/self/status'']
   \<and> specResolveProcSelf (Pid agentEvent) ''/proc/self/status'' = ''/proc/4242/status''"
  by (simp add: processLookupRequest_def testKernel_def specResolveProcSelf_def agentEvent_def)

text \<open>
  Claim C5, amended. The agent passes a path through \<open>ResolveProcSelf\<close> for the caller's
  PID only in the three batches: every mount of a mount batch is on a source and a target
  that \<open>ResolveProcSelf\<close> answered for a submitted source and target (and so is every
  unmount of its rollback), and every unmount and chown of an unmount or chown batch is on
  a target that it answered for a submitted target. Lookup, ReadFile, WriteFile, ReadDir
  and OpenFile call the kernel on the path as submitted.
\<close>

theorem proc_self_resolution_only_in_batches:
  "(\<forall>e' tr'. processMountSyscallRequest K mounts e tr = Returned (e', tr') \<longrightarrow>
       (\<exists>new. tr' = tr @ new \<and> (\<forall>c \<in> set new. mountCallOk K (Pid e) mounts c)))
   \<and> (\<exists>new. snd (processUmountSyscallRequest K umounts e tr) = tr @ new
         \<and> (\<forall>c \<in> set new. umountCallOk K (Pid e) (map uTarget umounts) c))
   \<and> (\<exists>new. snd (processChownSyscallRequest K chowns e tr) = tr @ new
         \<and> (\<forall>c \<in> set new. umountCallOk K (Pid e) (map cTarget chowns) c))
   \<and> snd (processLookupRequest K lp e tr) = tr @ [SysStat (Entry lp)]
   \<and> snd (processFileReadRequest K rp e tr) = tr @ [SysReadFile (rFile rp)]
   \<and> snd (processFileWriteRequest K wp e tr) = tr @ [SysWriteFile (wFile wp) (wContent wp) 420]
   \<and> snd (processDirReadRequest K dp e tr) = tr @ [SysReadDir (Dir dp)]
   \<and> (\<exists>new. snd (processOpenFileRequest K op e tr) = tr @ new
         \<and> (\<forall>c \<in> set new. c = SysClose (oFile op) \<or> (\<exists>fl m. c = SysOpenFile (oFile op) fl m)))"
proof (intro conjI allI impI)
  fix e' tr'
  assume "processMountSyscallRequest K mounts e tr = Returned (e', tr')"
  then show "\<exists>new. tr' = tr @ new \<and> (\<forall>c \<in> set new. mountCallOk K (Pid e) mounts c)"
    by (rule processMount_resolved)
next
  show "\<exists>new. snd (processUmountSyscallRequest K umounts e tr) = tr @ new
         \<and> (\<forall>c \<in> set new. umountCallOk K (Pid e) (map uTarget umounts) c)"
    by (rule processUmount_resolved)
next
  show "\<exists>new. snd (processChownSyscallRequest K chowns e tr) = tr @ new
         \<and> (\<forall>c \<in> set new. umountCallOk K (Pid e) (map cTarget chowns) c)"
    by (rule processChown_resolved)
next
  show "snd (processLookupRequest K lp e tr) = tr @ [SysStat (Entry lp)]"
    by (simp add: processLookupRequest_def split: sum.splits)
next
  show "snd (processFileReadRequest K rp e tr) = tr @ [SysReadFile (rFile rp)]"
    by (simp add: processFileReadRequest_def split: sum.splits)
next
  show "snd (processFileWriteRequest K wp e tr) = tr @ [SysWriteFile (wFile wp) (wContent wp) 420]"
    by (simp add: processFileWriteRequest_def split: option.splits)
next
  show "snd (processDirReadRequest K dp e tr) = tr @ [SysReadDir (Dir dp)]"
    by (simp add: processDirReadRequest_def split: sum.splits)
next
  show "\<exists>new. snd (processOpenFileRequest K op e tr) = tr @ new
         \<and> (\<forall>c \<in> set new. c = SysClose (oFile op) \<or> (\<exists>fl m. c = SysOpenFile (oFile op) fl m))"
    by (auto simp: processOpenFileRequest_def split: sum.splits option.splits)
qed

theorem proc_self_resolution_only_in_batches_witness:
  "processMountSyscallRequest testKernel failingBatch agentEvent [] =
     Returned (agentEvent\<lparr>ResMsg := Some (errorResponse (Errno 2))\<rparr>,
               failingBatchTrace @ [SysUnmount ''/m1'' 0])
   \<and> mountCallOk testKernel 4242 failingBatch (SysMount ''/a'' ''/m1'' ''bind'' 4096 [])
   \<and> mountCallOk testKernel 4242 failingBatch (SysUnmount ''/m1'' 0)"
proof -
  from proc_self_resolution_only_in_batches
         [of testKernel failingBatch agentEvent "[]" "[]" "[]" "\<lparr>Entry = []\<rparr>" "\<lparr>rFile = []\<rparr>"
             "\<lparr>wFile = [], wContent = []\<rparr>" "\<lparr>Dir = []\<rparr>" "\<lparr>oFile = [], oFlags = [], oMode = []\<rparr>"]
       failingBatch_run
  obtain new where n: "failingBatchTrace @ [SysUnmount ''/m1'' 0] = [] @ new"
      "\<forall>c \<in> set new. mountCallOk testKernel (Pid agentEvent) failingBatch c"
    by blast
  have "SysMount ''/a'' ''/m1'' ''bind'' 4096 [] \<in> set new" "SysUnmount ''/m1'' 0 \<in> set new"
    using n(1) by (auto simp: failingBatchTrace_def)
  with n(2) failingBatch_run show ?thesis by (simp add: agentEvent_def)
qed

subsection \<open>The caller's identity\<close>

lemma resolvesOnlyFor_simps [simp]:
  "resolvesOnlyFor pid []"
  "resolvesOnlyFor pid (c # cs) =
     ((case c of SysResolveProcSelf q a \<Rightarrow> q = pid | _ \<Rightarrow> True) \<and> resolvesOnlyFor pid cs)"
  "resolvesOnlyFor pid (xs @ ys) = (resolvesOnlyFor pid xs \<and> resolvesOnlyFor pid ys)"
  by (auto simp: resolvesOnlyFor_def)

lemma mountCallOk_resolves:
  "\<forall>c \<in> set new. mountCallOk K pid payload c \<Longrightarrow> resolvesOnlyFor pid new"
  by (auto simp: resolvesOnlyFor_def mountCallOk_def split: syscall.splits)

lemma umountCallOk_resolves:
  "\<forall>c \<in> set new. umountCallOk K pid paths c \<Longrightarrow> resolvesOnlyFor pid new"
  by (auto simp: resolvesOnlyFor_def umountCallOk_def split: syscall.splits)

lemma umountLoop_Pid: "umountLoop K pid xs e tr = (r, e', tr') \<Longrightarrow> Pid e' = Pid e"
  by (induction xs arbitrary: tr) (auto simp: Let_def split: sum.splits option.splits)

lemma chownLoop_Pid: "chownLoop K pid xs e tr = (r, e', tr') \<Longrightarrow> Pid e' = Pid e"
  by (induction xs arbitrary: tr) (auto simp: Let_def split: sum.splits option.splits)

lemma mountInodeLoop_trace:
  "mountInodeLoop K mps acc tr = (inodes, tr') \<Longrightarrow> tr' = tr @ map SysFileInode mps"
proof (induction mps arbitrary: acc tr)
  case Nil
  then show ?case by simp
next
  case (Cons mp mps)
  from Cons.prems have "mountInodeLoop K mps (acc @ [k_FileInode K tr mp]) (tr @ [SysFileInode mp]) = (inodes, tr')"
    by simp
  from Cons.IH [OF this] show ?case by simp
qed

lemma keepsCaller_Lookup: "keepsCaller e tr (processLookupRequest K p e tr)"
  by (auto simp: keepsCaller_def processLookupRequest_def split: sum.splits)

lemma keepsCaller_OpenFile: "keepsCaller e tr (processOpenFileRequest K p e tr)"
  by (auto simp: keepsCaller_def processOpenFileRequest_def split: sum.splits option.splits)

lemma keepsCaller_FileRead: "keepsCaller e tr (processFileReadRequest K p e tr)"
  by (auto simp: keepsCaller_def processFileReadRequest_def split: sum.splits)

lemma keepsCaller_FileWrite: "keepsCaller e tr (processFileWriteRequest K p e tr)"
  by (auto simp: keepsCaller_def processFileWriteRequest_def split: option.splits)

lemma keepsCaller_DirRead: "keepsCaller e tr (processDirReadRequest K p e tr)"
  by (auto simp: keepsCaller_def processDirReadRequest_def split: sum.splits)

lemma keepsCaller_MountInfo: "keepsCaller e tr (processMountInfoRequest K e tr)"
  by (auto simp: keepsCaller_def processMountInfoRequest_def Let_def split: sum.splits option.splits)

lemma keepsCaller_Sleep: "keepsCaller e tr (processSleepRequest K p e tr)"
  by (auto simp: keepsCaller_def processSleepRequest_def split: sum.splits)

lemma keepsCaller_MountInode: "keepsCaller e tr (processMountInodeRequest K p e tr)"
proof -
  obtain inodes tr' where run: "mountInodeLoop K (Mountpoints p) [] tr = (inodes, tr')"
    by (cases "mountInodeLoop K (Mountpoints p) [] tr") auto
  have "resolvesOnlyFor (Pid e) (map SysFileInode (Mountpoints p))"
    by (auto simp: resolvesOnlyFor_def)
  with run mountInodeLoop_trace [OF run] show ?thesis
    by (auto simp: keepsCaller_def processMountInodeRequest_def)
qed

lemma keepsCaller_Umount: "keepsCaller e tr (processUmountSyscallRequest K p e tr)"
proof -
  obtain r e' tr' where run: "umountLoop K (Pid e) p e tr = (r, e', tr')"
    by (cases "umountLoop K (Pid e) p e tr") auto
  have "Pid (fst (processUmountSyscallRequest K p e tr)) = Pid e"
    using run umountLoop_Pid [OF run] by (cases r) (simp_all add: processUmountSyscallRequest_def)
  with processUmount_resolved [of K p e tr] show ?thesis
    by (auto simp: keepsCaller_def dest: umountCallOk_resolves)
qed

lemma keepsCaller_Chown: "keepsCaller e tr (processChownSyscallRequest K p e tr)"
proof -
  obtain r e' tr' where run: "chownLoop K (Pid e) p e tr = (r, e', tr')"
    by (cases "chownLoop K (Pid e) p e tr") auto
  have "Pid (fst (processChownSyscallRequest K p e tr)) = Pid e"
    using run chownLoop_Pid [OF run] by (cases r) (simp_all add: processChownSyscallRequest_def)
  with processChown_resolved [of K p e tr] show ?thesis
    by (auto simp: keepsCaller_def dest: umountCallOk_resolves)
qed

lemma mountBatch_Pid: "mountBatch K p e tr = (e', tr') \<Longrightarrow> Pid e' = Pid e"
  by (auto simp: mountBatch_def split: prod.splits option.splits)

lemma keepsCaller_Mount:
  assumes "processMountSyscallRequest K p e tr = Returned r"
  shows "keepsCaller e tr r"
proof -
  obtain e' tr' where r: "r = (e', tr')" by (cases r) auto
  from processMount_resolved [OF assms [unfolded r]]
  have tr: "\<exists>new. tr' = tr @ new \<and> resolvesOnlyFor (Pid e) new"
    by (auto dest: mountCallOk_resolves)
  have "Pid e' = Pid e"
    using assms r
    by (auto simp: processMountSyscallRequest_def Let_def dest: mountBatch_Pid
        split: list.splits if_splits option.splits)
  with tr r show ?thesis by (simp add: keepsCaller_def)
qed

lemma keepsCaller_ReqMsg: "keepsCaller (e\<lparr>ReqMsg := m\<rparr>) tr r = keepsCaller e tr r"
  by (simp add: keepsCaller_def)

lemma dispatchRequest_keepsCaller:
  "dispatchRequest K req e tr = Returned (out, e', tr') \<Longrightarrow> keepsCaller e tr (e', tr')"
proof (cases req)
  case (MountSyscallReq p)
  assume d: "dispatchRequest K req e tr = Returned (out, e', tr')"
  with MountSyscallReq
  have "processMountSyscallRequest K p (e\<lparr>ReqMsg := Some (MountSyscallReq p)\<rparr>) tr = Returned (e', tr')"
    by (auto simp: returnNil_def split: outcome.splits)
  from keepsCaller_Mount [OF this] show ?thesis by (simp add: keepsCaller_ReqMsg)
next
  case (LookupReq p)
  assume "dispatchRequest K req e tr = Returned (out, e', tr')"
  with LookupReq keepsCaller_Lookup [of "e\<lparr>ReqMsg := Some (LookupReq p)\<rparr>" tr K p]
  show ?thesis by (auto simp: returnNil_def keepsCaller_ReqMsg)
next
  case (OpenFileReq p)
  assume "dispatchRequest K req e tr = Returned (out, e', tr')"
  with OpenFileReq keepsCaller_OpenFile [of "e\<lparr>ReqMsg := Some (OpenFileReq p)\<rparr>" tr K p]
  show ?thesis by (auto simp: returnNil_def keepsCaller_ReqMsg)
next
  case (ReadFileReq p)
  assume "dispatchRequest K req e tr = Returned (out, e', tr')"
  with ReadFileReq keepsCaller_FileRead [of "e\<lparr>ReqMsg := Some (ReadFileReq p)\<rparr>" tr K p]
  show ?thesis by (auto simp: returnNil_def keepsCaller_ReqMsg)
next
  case (WriteFileReq p)
  assume "dispatchRequest K req e tr = Returned (out, e', tr')"
  with WriteFileReq keepsCaller_FileWrite [of "e\<lparr>ReqMsg := Some (WriteFileReq p)\<rparr>" tr K p]
  show ?thesis by (auto simp: returnNil_def keepsCaller_ReqMsg)
next
  case (ReadDirReq p)
  assume "dispatchRequest K req e tr = Returned (out, e', tr')"
  with ReadDirReq keepsCaller_DirRead [of "e\<lparr>ReqMsg := Some (ReadDirReq p)\<rparr>" tr K p]
  show ?thesis by (auto simp: returnNil_def keepsCaller_ReqMsg)
next
  case (UmountSyscallReq p)
  assume "dispatchRequest K req e tr = Returned (out, e', tr')"
  with UmountSyscallReq keepsCaller_Umount [of "e\<lparr>ReqMsg := Some (UmountSyscallReq p)\<rparr>" tr K p]
  show ?thesis by (auto simp: returnNil_def keepsCaller_ReqMsg)
next
  case MountInfoReq
  assume "dispatchRequest K req e tr = Returned (out, e', tr')"
  with MountInfoReq keepsCaller_MountInfo [of "e\<lparr>ReqMsg := Some MountInfoReq\<rparr>" tr K]
  show ?thesis by (auto simp: returnNil_def keepsCaller_ReqMsg)
next
  case (MountInodeReq p)
  assume "dispatchRequest K req e tr = Returned (out, e', tr')"
  with MountInodeReq keepsCaller_MountInode [of "e\<lparr>ReqMsg := Some (MountInodeReq p)\<rparr>" tr K p]
  show ?thesis by (auto simp: returnNil_def keepsCaller_ReqMsg)
next
  case (ChownSyscallReq p)
  assume "dispatchRequest K req e tr = Returned (out, e', tr')"
  with ChownSyscallReq keepsCaller_Chown [of "e\<lparr>ReqMsg := Some (ChownSyscallReq p)\<rparr>" tr K p]
  show ?thesis by (auto simp: returnNil_def keepsCaller_ReqMsg)
next
  case (SleepReq p)
  assume "dispatchRequest K req e tr = Returned (out, e', tr')"
  with SleepReq keepsCaller_Sleep [of "e\<lparr>ReqMsg := Some (SleepReq p)\<rparr>" tr K p]
  show ?thesis by (auto simp: returnNil_def keepsCaller_ReqMsg)
next
  case (UnsupportedReq t)
  assume "dispatchRequest K req e tr = Returned (out, e', tr')"
  with UnsupportedReq show ?thesis by (auto simp: keepsCaller_def)
qed

lemma processResponse_keeps:
  "processResponse rd e = (r, e') \<Longrightarrow> Process e' = Process e \<and> Pid e' = Pid e"
  by (cases rd)
     (auto simp: processResponse_def setResMsg_def Let_def split: NSenterMsgType.splits sum.splits)

lemma transferRequest_cred:
  assumes "transferRequest M e r snt0 = Returned (err, e', r', snt)"
    and "SentCred c \<in> set snt" and "SentCred c \<notin> set snt0"
  shows "c = \<lparr>uPid = sint (Pid e), uUid = 0, uGid = 0\<rparr> \<and> Process e' = Process e"
  using assms
  by (auto simp: transferRequest_def Let_def split: option.splits if_splits prod.splits
      dest: processResponse_keeps)

lemma SendRequest_cred:
  assumes "SendRequest M e r = Returned (err, e', r', snt)" and "SentCred c \<in> set snt"
  shows "c = \<lparr>uPid = sint (Pid e), uUid = 0, uGid = 0\<rparr>
         \<and> (\<exists>pd. m_DecodePid M = Inr pd \<and> Process e' = Some (pPid pd))"
  using assms
  by (auto simp: SendRequest_def Let_def split: option.splits if_splits sum.splits
      dest!: transferRequest_cred)



lemma lookup_send_eof:
  "SendRequest (okMaster (\<lambda>snt. ReadError EOF)) lookupEvent newReaper =
     Returned (Some (ErrorText ''Error decoding received nsenterMsg response''),
               lookupEvent\<lparr>Process := Some 777\<rparr>,
               \<lparr>started = 1, ended = 1, reapReqs = 1\<rparr>, sentForLookup)"
  by (simp add: SendRequest_def transferRequest_def okMaster_def lookupEvent_def newReaper_def
      nsenterStarted_def nsenterEnded_def nsenterReapReq_def processResponse_def sentForLookup_def)

text \<open>
  Claim C7, as stated, fails: the agent's \<open>Pid\<close> is the PID of the credentials message as
  the kernel delivers it. For an agent in another PID namespace, where the kernel delivers
  the caller 4242 as process 17, \<open>getProcCreds\<close> sets the \<open>Pid\<close> to 17.
\<close>

theorem agent_pid_is_delivered_pid_counterexample:
  "SendRequest (okMaster (\<lambda>snt. ReadError EOF)) lookupEvent newReaper =
     Returned (Some (ErrorText ''Error decoding received nsenterMsg response''),
               lookupEvent\<lparr>Process := Some 777\<rparr>,
               \<lparr>started = 1, ended = 1, reapReqs = 1\<rparr>, sentForLookup)
   \<and> sentForLookup ! 1 = SentCred \<lparr>uPid = 4242, uUid = 0, uGid = 0\<rparr>
   \<and> Pid lookupEvent = 4242
   \<and> getProcCreds translatedPipe initEvent = (None, initEvent\<lparr>Pid := 17\<rparr>)
   \<and> Pid (initEvent\<lparr>Pid := 17\<rparr>) \<noteq> Pid lookupEvent"
  by (simp add: lookup_send_eof)
     (simp add: sentForLookup_def lookupEvent_def getProcCreds_def translatedPipe_def initEvent_def)

lemma transferRequest_sends:
  assumes "m_Sendmsg M = None" and "ReqMsg e \<noteq> None"
  shows "\<exists>err e' r' rest.
           transferRequest M e r snt0 =
             Returned (err, e', r', snt0 @ SentCred \<lparr>uPid = sint (Pid e), uUid = 0, uGid = 0\<rparr> # rest)
           \<and> Process e' = Process e"
proof -
  from assms obtain req where req: "ReqMsg e = Some req" by auto
  obtain ierr e2 where resp:
    "processResponse (m_Response M (snt0 @ [SentCred \<lparr>uPid = sint (Pid e), uUid = 0, uGid = 0\<rparr>,
        SentRequest req])) e = (ierr, e2)"
    by (cases "processResponse (m_Response M (snt0 @ [SentCred \<lparr>uPid = sint (Pid e), uUid = 0, uGid = 0\<rparr>,
        SentRequest req])) e") auto
  from processResponse_keeps [OF resp] have keep: "Process e2 = Process e" by simp
  show ?thesis
    using assms(1) req resp keep
    by (cases "m_Marshal M"; cases "m_Write M"; cases "async e"; cases ierr)
       (simp_all add: transferRequest_def Let_def)
qed

lemma SendRequest_sends:
  assumes "m_NewSockPair M = None" "m_Setsockopt M = None" "m_Start M = None" "m_Copy M = None"
    "m_Wait M = None" "m_StatusSuccess M" "m_DecodePid M = Inr pd"
    "m_FindProcess M (PidFirstChild pd) = None" "m_FindProcess M (pPid pd) = None"
    "m_Sendmsg M = None" "ReqMsg e \<noteq> None"
  shows "\<exists>err e' r' rest.
           SendRequest M e r =
             Returned (err, e', r',
                       SentConfig # SentCred \<lparr>uPid = sint (Pid e), uUid = 0, uGid = 0\<rparr> # rest)
           \<and> Process e' = Some (pPid pd)"
proof -
  from transferRequest_sends [OF assms(10), of "e\<lparr>Process := Some (pPid pd)\<rparr>" "nsenterStarted r" "[SentConfig]"]
       assms(11)
  obtain err e' r' rest where
    t: "transferRequest M (e\<lparr>Process := Some (pPid pd)\<rparr>) (nsenterStarted r) [SentConfig] =
          Returned (err, e', r', [SentConfig] @ SentCred \<lparr>uPid = sint (Pid e), uUid = 0, uGid = 0\<rparr> # rest)"
       "Process e' = Some (pPid pd)"
    by auto
  have "SendRequest M e r = transferRequest M (e\<lparr>Process := Some (pPid pd)\<rparr>) (nsenterStarted r) [SentConfig]"
    using assms(1-9) by (simp add: SendRequest_def Let_def)
  with t show ?thesis by auto
qed

lemma getProcCreds_delivered:
  assumes "p_setsockopt pipe = None" "p_recvmsg pipe = ControlMessages [ScmCredentials c]"
  shows "getProcCreds pipe ev = (None, ev\<lparr>Pid := word_of_int (uPid c)\<rparr>)"
    and "processRequest K pipe ev tr = Returned (out, ev', tr') \<Longrightarrow>
           Pid ev' = word_of_int (uPid c)
           \<and> (\<exists>new. tr' = tr @ new \<and> resolvesOnlyFor (word_of_int (uPid c)) new)"
proof -
  show creds: "getProcCreds pipe ev = (None, ev\<lparr>Pid := word_of_int (uPid c)\<rparr>)"
    using assms by (simp add: getProcCreds_def)
  assume run: "processRequest K pipe ev tr = Returned (out, ev', tr')"
  show "Pid ev' = word_of_int (uPid c)
           \<and> (\<exists>new. tr' = tr @ new \<and> resolvesOnlyFor (word_of_int (uPid c)) new)"
  proof (cases "p_request pipe")
    case (EnvelopeError x)
    with run creds show ?thesis by (auto simp: processRequest_def)
  next
    case (PayloadError x)
    with run creds show ?thesis by (auto simp: processRequest_def)
  next
    case (Decoded req)
    with run creds
    have "dispatchRequest K req (ev\<lparr>Pid := word_of_int (uPid c)\<rparr>) tr = Returned (out, ev', tr')"
      by (simp add: processRequest_def)
    from dispatchRequest_keepsCaller [OF this] show ?thesis
      by (simp add: keepsCaller_def)
  qed
qed

text \<open>
  Claim C7, amended. When every step of \<open>SendRequest\<close> up to the sending of the
  credentials succeeds, the master sends, right after the configuration and with
  \<open>e.Process\<close> set to the grand-child, credentials that carry \<open>int32(p)\<close> for the PID \<open>p\<close>
  of the event, whatever PID the grand-child has; no run of \<open>SendRequest\<close> sends other
  credentials or sends them before the grand-child is found. In the agent,
  \<open>getProcCreds\<close> sets the \<open>Pid\<close> to \<open>uint32\<close> of the PID in the one credentials message
  it receives, and the operation keeps that value and resolves paths for it only. The
  value is exactly \<open>p\<close> when the message arrives as sent: \<open>uint32(int32(p)) = p\<close>.
\<close>

theorem credentials_carry_caller_pid:
  assumes steps: "m_NewSockPair M = None" "m_Setsockopt M = None" "m_Start M = None"
      "m_Copy M = None" "m_Wait M = None" "m_StatusSuccess M" "m_DecodePid M = Inr pd"
      "m_FindProcess M (PidFirstChild pd) = None" "m_FindProcess M (pPid pd) = None"
      "m_Sendmsg M = None"
    and request: "ReqMsg e \<noteq> None"
  shows "(\<exists>err e' r' rest.
            SendRequest M e r =
              Returned (err, e', r',
                        SentConfig # SentCred \<lparr>uPid = sint (Pid e), uUid = 0, uGid = 0\<rparr> # rest)
            \<and> Process e' = Some (pPid pd))
     \<and> (\<forall>M2 err e' r' snt c.
            SendRequest M2 e r = Returned (err, e', r', snt) \<and> SentCred c \<in> set snt \<longrightarrow>
            c = \<lparr>uPid = sint (Pid e), uUid = 0, uGid = 0\<rparr>
            \<and> (\<exists>pd2. m_DecodePid M2 = Inr pd2 \<and> Process e' = Some (pPid pd2)))
     \<and> (\<forall>c. p_setsockopt pipe = None \<and> p_recvmsg pipe = ControlMessages [ScmCredentials c] \<longrightarrow>
            getProcCreds pipe ev = (None, ev\<lparr>Pid := word_of_int (uPid c)\<rparr>)
            \<and> (\<forall>out ev' tr'. processRequest K pipe ev tr = Returned (out, ev', tr') \<longrightarrow>
                  Pid ev' = word_of_int (uPid c)
                  \<and> (\<exists>new. tr' = tr @ new \<and> resolvesOnlyFor (word_of_int (uPid c)) new)))
     \<and> (word_of_int (uPid \<lparr>uPid = sint (Pid e), uUid = 0, uGid = 0\<rparr>) :: 32 word) = Pid e"
proof (intro conjI)
  show "\<exists>err e' r' rest.
            SendRequest M e r =
              Returned (err, e', r',
                        SentConfig # SentCred \<lparr>uPid = sint (Pid e), uUid = 0, uGid = 0\<rparr> # rest)
            \<and> Process e' = Some (pPid pd)"
    by (rule SendRequest_sends [OF steps request])
next
  show "\<forall>M2 err e' r' snt c.
            SendRequest M2 e r = Returned (err, e', r', snt) \<and> SentCred c \<in> set snt \<longrightarrow>
            c = \<lparr>uPid = sint (Pid e), uUid = 0, uGid = 0\<rparr>
            \<and> (\<exists>pd2. m_DecodePid M2 = Inr pd2 \<and> Process e' = Some (pPid pd2))"
    using SendRequest_cred by blast
next
  show "\<forall>c. p_setsockopt pipe = None \<and> p_recvmsg pipe = ControlMessages [ScmCredentials c] \<longrightarrow>
            getProcCreds pipe ev = (None, ev\<lparr>Pid := word_of_int (uPid c)\<rparr>)
            \<and> (\<forall>out ev' tr'. processRequest K pipe ev tr = Returned (out, ev', tr') \<longrightarrow>
                  Pid ev' = word_of_int (uPid c)
                  \<and> (\<exists>new. tr' = tr @ new \<and> resolvesOnlyFor (word_of_int (uPid c)) new))"
    using getProcCreds_delivered by blast
next
  show "(word_of_int (uPid \<lparr>uPid = sint (Pid e), uUid = 0, uGid = 0\<rparr>) :: 32 word) = Pid e"
    by simp
qed

theorem credentials_carry_caller_pid_witness:
  "SendRequest (okMaster (\<lambda>snt. ReadError EOF)) lookupEvent newReaper =
     Returned (Some (ErrorText ''Error decoding received nsenterMsg response''),
               lookupEvent\<lparr>Process := Some 777\<rparr>,
               \<lparr>started = 1, ended = 1, reapReqs = 1\<rparr>, sentForLookup)
   \<and> getProcCreds (pipeOf sentForLookup) initEvent = (None, initEvent\<lparr>Pid := 4242\<rparr>)
   \<and> getProcCreds translatedPipe initEvent = (None, initEvent\<lparr>Pid := 17\<rparr>)"
proof -
  let ?M = "okMaster (\<lambda>snt. ReadError EOF)"
  have steps: "m_NewSockPair ?M = None" "m_Setsockopt ?M = None" "m_Start ?M = None"
      "m_Copy ?M = None" "m_Wait ?M = None" "m_StatusSuccess ?M"
      "m_DecodePid ?M = Inr \<lparr>pPid = 777, PidFirstChild = 776\<rparr>"
      "m_FindProcess ?M (PidFirstChild \<lparr>pPid = 777, PidFirstChild = 776\<rparr>) = None"
      "m_FindProcess ?M (pPid \<lparr>pPid = 777, PidFirstChild = 776\<rparr>) = None"
      "m_Sendmsg ?M = None"
    by (simp_all add: okMaster_def)
  have request: "ReqMsg lookupEvent \<noteq> None" by (simp add: lookupEvent_def)
  have d1: "p_setsockopt (pipeOf sentForLookup) = None
      \<and> p_recvmsg (pipeOf sentForLookup) = ControlMessages [ScmCredentials \<lparr>uPid = 4242, uUid = 0, uGid = 0\<rparr>]"
    by (simp add: pipeOf_def sentForLookup_def)
  have d2: "p_setsockopt translatedPipe = None
      \<and> p_recvmsg translatedPipe = ControlMessages [ScmCredentials \<lparr>uPid = 17, uUid = 0, uGid = 0\<rparr>]"
    by (simp add: translatedPipe_def)
  from credentials_carry_caller_pid [OF steps request, of newReaper "pipeOf sentForLookup" initEvent testKernel "[]"] d1
  have a: "getProcCreds (pipeOf sentForLookup) initEvent = (None, initEvent\<lparr>Pid := 4242\<rparr>)"
    by auto
  from credentials_carry_caller_pid [OF steps request, of newReaper translatedPipe initEvent testKernel "[]"] d2
  have b: "getProcCreds translatedPipe initEvent = (None, initEvent\<lparr>Pid := 17\<rparr>)"
    by auto
  from a b lookup_send_eof show ?thesis by simp
qed

subsection \<open>The response round trip\<close>

lemma runeLen_le: "runeLen s \<le> length s"
proof (cases s)
  case Nil
  then show ?thesis by (simp add: runeLen_def)
next
  case (Cons b0 r)
  have a: "accept rs r \<Longrightarrow> length rs \<le> length r" for rs
    by (induction rs r rule: accept.induct) simp_all
  show ?thesis
    using Cons a [of "[(0x80, 0xBF)]"]
      a [of "[(if of_char b0 = (0xE0::nat) then 0xA0 else 0x80, if of_char b0 = (0xED::nat) then 0x9F else 0xBF), (0x80, 0xBF)]"]
      a [of "[(if of_char b0 = (0xF0::nat) then 0x90 else 0x80, if of_char b0 = (0xF4::nat) then 0x8F else 0xBF), (0x80, 0xBF), (0x80, 0xBF)]"]
    by (auto simp: runeLen_def Let_def)
qed

lemma accept_take:
  "accept rs r \<Longrightarrow> length rs \<le> length r \<and> accept rs (take (length rs) r @ t)"
  by (induction rs r rule: accept.induct) simp_all

lemma runeLen_take:
  assumes "runeLen s \<noteq> 0"
  shows "runeLen (take (runeLen s) s @ t) = runeLen s"
proof (cases s)
  case Nil
  with assms show ?thesis by (simp add: runeLen_def)
next
  case (Cons b0 r)
  let ?x = "of_char b0 :: nat"
  let ?r2 = "[(0x80, 0xBF)] :: (nat \<times> nat) list"
  let ?r3 = "[(if ?x = 0xE0 then 0xA0 else 0x80, if ?x = 0xED then 0x9F else 0xBF), (0x80, 0xBF)] :: (nat \<times> nat) list"
  let ?r4 = "[(if ?x = 0xF0 then 0x90 else 0x80, if ?x = 0xF4 then 0x8F else 0xBF), (0x80, 0xBF), (0x80, 0xBF)] :: (nat \<times> nat) list"
  consider (one) "?x < 0x80" | (two) "0xC2 \<le> ?x" "?x < 0xE0" "accept ?r2 r"
    | (three) "0xE0 \<le> ?x" "?x < 0xF0" "accept ?r3 r"
    | (four) "0xF0 \<le> ?x" "?x < 0xF5" "accept ?r4 r"
    using assms Cons by (auto simp: runeLen_def Let_def split: if_splits)
  then show ?thesis
  proof cases
    case one
    with Cons show ?thesis by (simp add: runeLen_def)
  next
    case two
    have n: "runeLen s = 2" using two Cons by (simp add: runeLen_def Let_def)
    have "runeLen (take 2 s @ t) = 2"
      using accept_take [OF two(3), of t] two(1,2) Cons by (simp add: runeLen_def Let_def)
    with n show ?thesis by simp
  next
    case three
    have n: "runeLen s = 3" using three Cons by (simp add: runeLen_def Let_def)
    have len: "length ?r3 = 2" by simp
    have "runeLen (take 3 s @ t) = 3"
      using accept_take [OF three(3), of t] three(1,2) Cons unfolding len
      by (simp add: runeLen_def Let_def)
    with n show ?thesis by simp
  next
    case four
    have n: "runeLen s = 4" using four Cons by (simp add: runeLen_def Let_def)
    have len: "length ?r4 = 3" by simp
    have "runeLen (take 4 s @ t) = 4"
      using accept_take [OF four(3), of t] four(1,2) Cons unfolding len
      by (simp add: runeLen_def Let_def)
    with n show ?thesis by simp
  qed
qed

lemma coerceUTF8_rune:
  assumes "r \<noteq> []" and "runeLen (r @ t) = length r"
  shows "coerceUTF8 (r @ t) = r @ coerceUTF8 t"
proof -
  from assms(1) obtain b bs where r: "r = b # bs" by (cases r) auto
  have "coerceUTF8 ((b # bs) @ t) =
          take (runeLen ((b # bs) @ t)) ((b # bs) @ t) @ coerceUTF8 (drop (runeLen ((b # bs) @ t)) ((b # bs) @ t))"
    using assms(2) r by (simp del: take_Cons' drop_Cons')
  with assms(2) r show ?thesis by simp
qed

lemma runeLen_replacement: "runeLen (replacementChar @ t) = 3"
  by (simp add: runeLen_def replacementChar_def byteIn_def)

lemma coerceUTF8_idem: "coerceUTF8 (coerceUTF8 s) = coerceUTF8 s"
proof (induction s rule: coerceUTF8.induct)
  case 1
  then show ?case by simp
next
  case (2 b bs)
  show ?case
  proof (cases "runeLen (b # bs) = 0")
    case True
    have "coerceUTF8 (replacementChar @ coerceUTF8 bs) = replacementChar @ coerceUTF8 (coerceUTF8 bs)"
      by (rule coerceUTF8_rune) (simp_all add: runeLen_replacement, simp_all add: replacementChar_def)
    with True 2(1) show ?thesis by simp
  next
    case False
    let ?n = "runeLen (b # bs)"
    let ?r = "take ?n (b # bs)"
    let ?t = "coerceUTF8 (drop ?n (b # bs))"
    have n: "?n \<le> length (b # bs)" by (rule runeLen_le)
    have "runeLen (?r @ ?t) = length ?r"
      using runeLen_take [OF False, of ?t] n by simp
    moreover have "?r \<noteq> []" using False by auto
    ultimately have "coerceUTF8 (?r @ ?t) = ?r @ coerceUTF8 ?t"
      by (rule coerceUTF8_rune [rotated])
    with False 2(2) show ?thesis by (simp del: take_Cons' drop_Cons')
  qed
qed


lemma dec_string_coerce: "dec_string (JStr (coerceUTF8 s)) = Inr (coerceUTF8 s)"
  by (simp add: dec_string_def coerceUTF8_idem)













lemma master_ReadFile:
  "processResponse (Envelope (Marshal \<lparr>Type = ReadFileResponse, Payload = PString s\<rparr>)) ev =
     (None, ev\<lparr>ResMsg := Some \<lparr>Type = ReadFileResponse, Payload = PString (coerceUTF8 s)\<rparr>\<rparr>)"
  by (simp add: processResponse_def Marshal_def setResMsg_def unmarshalInto_def dec_string_coerce)









lemma errorResponse_Type [simp]: "Type (errorResponse err) = ErrorResponse"
  by (simp add: errorResponse_def)
















lemma invalid_utf8_not_preserved:
  "processResponse (Envelope (Marshal \<lparr>Type = ReadFileResponse, Payload = PString [CHR 0xFF]\<rparr>)) ev =
     (None, ev\<lparr>ResMsg := Some \<lparr>Type = ReadFileResponse, Payload = PString replacementChar\<rparr>\<rparr>)"
  by (simp add: master_ReadFile runeLen_def)




subsection \<open>The handler's mutex and its reads\<close>

lemma GetResourceMutex_fresh:
  "EmuResourceMap h s \<noteq> None \<Longrightarrow>
   fst (GetResourceMutex h s (snd (GetResourceMutex h s hp))) \<noteq> fst (GetResourceMutex h s hp)"
  by (auto simp: GetResourceMutex_def)

text \<open>
  Claim C6 fails on the code. Two calls of \<open>GetResourceMutex\<close> with the name of the
  registered resource \<open>max_dgram_qlen\<close> return the addresses of two different mutexes,
  each in a copy of the map's entry made by the call, and both can be locked at the same
  time: the two holders do not exclude each other.
\<close>

theorem GetResourceMutex_returns_distinct_mutexes:
  "GetResourceMutex ProcSysNetUnix_Handler ''max_dgram_qlen'' [] = (MutexOf 0, [qlenResource])
   \<and> GetResourceMutex ProcSysNetUnix_Handler ''max_dgram_qlen'' [qlenResource] =
       (MutexOf 1, [qlenResource, qlenResource])
   \<and> MutexOf 0 \<noteq> MutexOf 1
   \<and> Lock (MutexOf 0) [qlenResource, qlenResource] =
       Locked [qlenResource\<lparr>Mutex := SyncMutex True\<rparr>, qlenResource]
   \<and> Lock (MutexOf 1) [qlenResource\<lparr>Mutex := SyncMutex True\<rparr>, qlenResource] =
       Locked [qlenResource\<lparr>Mutex := SyncMutex True\<rparr>, qlenResource\<lparr>Mutex := SyncMutex True\<rparr>]"
  by (simp add: GetResourceMutex_def ProcSysNetUnix_Handler_def qlenResource_def Lock_def)






end
